theory Spec2Isabelle
  imports Complex_Main "HOL-Library.Word" "HOL-Library.Monad_Syntax"
begin

unbundle bit_operations_syntax

section \<open>Data model of jucer_RelativePositionedRectangle.h\<close>

text \<open>
  The C++ \<open>double\<close> fields and temporaries are modelled as \<open>real\<close> (idealised
  arithmetic; the rounding of the double operations is written out in a section of its
  own, for the mode change), the \<open>uint8\<close> mode fields as \<open>8 word\<close>, and the
  \<open>int\<close> coordinates of \<open>Rectangle<int>\<close> as \<open>int\<close> (values are taken to stay inside
  the 32-bit range, where C++ arithmetic does not overflow).
\<close>

type_synonym uint8 = "8 word"

text \<open>\<open>juce::Rectangle<int>\<close>: position and size, read by getX, getY, getWidth, getHeight.\<close>

record Rectangle =
  getX :: int
  getY :: int
  getWidth :: int
  getHeight :: int

text \<open>The default-constructed \<open>Rectangle<int>()\<close> is all zero.\<close>

definition Rectangle_empty :: Rectangle where
  "Rectangle_empty = \<lparr> getX = 0, getY = 0, getWidth = 0, getHeight = 0 \<rparr>"

text \<open>enum AnchorPoint\<close>

definition anchorAtLeftOrTop :: uint8 where
  "anchorAtLeftOrTop = push_bit 0 1"

definition anchorAtRightOrBottom :: uint8 where
  "anchorAtRightOrBottom = push_bit 1 1"

definition anchorAtCentre :: uint8 where
  "anchorAtCentre = push_bit 2 1"

text \<open>enum PositionMode\<close>

definition absoluteFromParentTopLeft :: uint8 where
  "absoluteFromParentTopLeft = push_bit 3 1"

definition absoluteFromParentBottomRight :: uint8 where
  "absoluteFromParentBottomRight = push_bit 4 1"

definition absoluteFromParentCentre :: uint8 where
  "absoluteFromParentCentre = push_bit 5 1"

definition proportionOfParentSize :: uint8 where
  "proportionOfParentSize = push_bit 6 1"

text \<open>enum SizeMode\<close>

definition absoluteSize :: uint8 where
  "absoluteSize = push_bit 0 1"

definition parentSizeMinusAbsolute :: uint8 where
  "parentSizeMinusAbsolute = push_bit 1 1"

definition proportionalSize :: uint8 where
  "proportionalSize = push_bit 2 1"

lemmas mode_defs =
  anchorAtLeftOrTop_def anchorAtRightOrBottom_def anchorAtCentre_def
  absoluteFromParentTopLeft_def absoluteFromParentBottomRight_def
  absoluteFromParentCentre_def proportionOfParentSize_def
  absoluteSize_def parentSizeMinusAbsolute_def proportionalSize_def

text \<open>
  class PositionedRectangle: the private members \<open>double x, y, w, h\<close> and
  \<open>uint8 xMode, yMode, wMode, hMode\<close>.
\<close>

record PositionedRectangle =
  pr_x :: real
  pr_y :: real
  pr_w :: real
  pr_h :: real
  xMode :: uint8
  yMode :: uint8
  wMode :: uint8
  hMode :: uint8

text \<open>The default constructor \<open>PositionedRectangle()\<close>.\<close>

definition PositionedRectangle_default :: PositionedRectangle where
  "PositionedRectangle_default =
     \<lparr> pr_x = 0, pr_y = 0, pr_w = 0, pr_h = 0,
       xMode = anchorAtLeftOrTop OR absoluteFromParentTopLeft,
       yMode = anchorAtLeftOrTop OR absoluteFromParentTopLeft,
       wMode = absoluteSize, hMode = absoluteSize \<rparr>"

text \<open>
  Modelled from the spec: \<open>roundToInt\<close> is a JUCE library function that is not part of
  this file; the spec describes it as rounding to the nearest integer. Halves are
  rounded up here; no theorem below depends on how a half is rounded.
\<close>

definition roundToInt :: "real \<Rightarrow> int" where
  "roundToInt v = round v"

text \<open>C++ integer division truncates towards zero.\<close>

definition int_div :: "int \<Rightarrow> int \<Rightarrow> int" where
  "int_div a b = sgn a * sgn b * (\<bar>a\<bar> div \<bar>b\<bar>)"

section \<open>Forward and inverse evaluation of one axis\<close>

text \<open>
  \<open>applyPosAndSize\<close>: the two reference outputs \<open>xOut\<close>, \<open>wOut\<close> are returned as a
  pair.
\<close>

definition applyPosAndSize ::
  "real \<Rightarrow> real \<Rightarrow> uint8 \<Rightarrow> uint8 \<Rightarrow> int \<Rightarrow> int \<Rightarrow> real \<times> real" where
  "applyPosAndSize xArg wArg xModeArg wModeArg parentPos parentSize =
    (let wOut =
           (if wModeArg = proportionalSize
              then real_of_int (roundToInt (wArg * real_of_int parentSize))
            else if wModeArg = parentSizeMinusAbsolute
              then real_of_int (max 0 (parentSize - roundToInt wArg))
            else real_of_int (roundToInt wArg));
         xOut =
           (if xModeArg AND proportionOfParentSize \<noteq> 0
              then real_of_int parentPos + xArg * real_of_int parentSize
            else if xModeArg AND absoluteFromParentBottomRight \<noteq> 0
              then real_of_int (parentPos + parentSize) - xArg
            else if xModeArg AND absoluteFromParentCentre \<noteq> 0
              then xArg + real_of_int (parentPos + int_div parentSize 2)
            else xArg + real_of_int parentPos)
     in (if xModeArg AND anchorAtRightOrBottom \<noteq> 0 then xOut - wOut
         else if xModeArg AND anchorAtCentre \<noteq> 0 then xOut - wOut / 2
         else xOut,
         wOut))"

text \<open>
  \<open>updatePosAndSize\<close>: \<open>xOut\<close> and \<open>wOut\<close> are in-out references (the stored raw
  values); the branches that assign nothing return them as they came in.
\<close>

definition updatePosAndSize ::
  "real \<Rightarrow> real \<Rightarrow> real \<Rightarrow> real \<Rightarrow> uint8 \<Rightarrow> uint8 \<Rightarrow> int \<Rightarrow> int \<Rightarrow> real \<times> real" where
  "updatePosAndSize xOut wOut xArg wArg xModeArg wModeArg parentPos parentSize =
    (let wOut' =
           (if wModeArg = proportionalSize
              then (if parentSize > 0 then wArg / real_of_int parentSize else wOut)
            else if wModeArg = parentSizeMinusAbsolute
              then real_of_int parentSize - wArg
            else wArg);
         x1 =
           (if xModeArg AND anchorAtRightOrBottom \<noteq> 0 then xArg + wArg
            else if xModeArg AND anchorAtCentre \<noteq> 0 then xArg + wArg / 2
            else xArg);
         xOut' =
           (if xModeArg AND proportionOfParentSize \<noteq> 0
              then (if parentSize > 0
                      then (x1 - real_of_int parentPos) / real_of_int parentSize
                    else xOut)
            else if xModeArg AND absoluteFromParentBottomRight \<noteq> 0
              then real_of_int (parentPos + parentSize) - x1
            else if xModeArg AND absoluteFromParentCentre \<noteq> 0
              then x1 - real_of_int (parentPos + int_div parentSize 2)
            else x1 - real_of_int parentPos)
     in (xOut', wOut'))"

section \<open>PositionedRectangle operations\<close>


definition getRectangle :: "PositionedRectangle \<Rightarrow> Rectangle \<Rightarrow> Rectangle" where
  "getRectangle p target =
    (let (xArg, wArg) = applyPosAndSize (pr_x p) (pr_w p) (xMode p) (wMode p)
                      (getX target) (getWidth target);
         (yArg, hArg) = applyPosAndSize (pr_y p) (pr_h p) (yMode p) (hMode p)
                      (getY target) (getHeight target)
     in \<lparr> getX = roundToInt xArg, getY = roundToInt yArg,
          getWidth = roundToInt wArg, getHeight = roundToInt hArg \<rparr>)"

definition updateFromDouble ::
  "PositionedRectangle \<Rightarrow> real \<Rightarrow> real \<Rightarrow> real \<Rightarrow> real \<Rightarrow> Rectangle \<Rightarrow> PositionedRectangle" where
  "updateFromDouble p newX newY newW newH target =
    (let (x', w') = updatePosAndSize (pr_x p) (pr_w p) newX newW (xMode p) (wMode p)
                      (getX target) (getWidth target);
         (y', h') = updatePosAndSize (pr_y p) (pr_h p) newY newH (yMode p) (hMode p)
                      (getY target) (getHeight target)
     in p \<lparr> pr_x := x', pr_y := y', pr_w := w', pr_h := h' \<rparr>)"

text \<open>
  \<open>updateFrom\<close>: the \<open>int\<close> coordinates of \<open>newPosition\<close> are converted to \<open>double\<close>
  at the calls of \<open>updatePosAndSize\<close>.
\<close>

definition updateFrom ::
  "PositionedRectangle \<Rightarrow> Rectangle \<Rightarrow> Rectangle \<Rightarrow> PositionedRectangle" where
  "updateFrom p newPosition targetSpaceToBeRelativeTo =
    (let (x', w') = updatePosAndSize (pr_x p) (pr_w p)
                      (real_of_int (getX newPosition)) (real_of_int (getWidth newPosition))
                      (xMode p) (wMode p)
                      (getX targetSpaceToBeRelativeTo) (getWidth targetSpaceToBeRelativeTo);
         (y', h') = updatePosAndSize (pr_y p) (pr_h p)
                      (real_of_int (getY newPosition)) (real_of_int (getHeight newPosition))
                      (yMode p) (hMode p)
                      (getY targetSpaceToBeRelativeTo) (getHeight targetSpaceToBeRelativeTo)
     in p \<lparr> pr_x := x', pr_y := y', pr_w := w', pr_h := h' \<rparr>)"

definition isPositionAbsolute :: "PositionedRectangle \<Rightarrow> bool" where
  "isPositionAbsolute p \<longleftrightarrow>
     xMode p = absoluteFromParentTopLeft
     \<and> yMode p = absoluteFromParentTopLeft
     \<and> wMode p = absoluteSize
     \<and> hMode p = absoluteSize"

section \<open>Double arithmetic with its rounding\<close>

text \<open>
  The definitions above compute with exact reals. Where a claim depends on the rounding
  of the C++ \<open>double\<close> operations, the same functions are given with that rounding
  written out: every arithmetic operation on doubles is followed by \<open>binary64\<close>, the
  IEEE 754 round-to-nearest-even to 53 significant bits, with subnormal numbers below
  \<open>2 powr - 1022\<close>. Results beyond the largest finite double are not modelled. An
  \<open>int\<close> converts to \<open>double\<close> without rounding.
\<close>

definition roundToEven :: "real \<Rightarrow> int" where
  "roundToEven y =
    (let f = \<lfloor>y\<rfloor>
     in if y - real_of_int f < 1 / 2 then f
        else if 1 / 2 < y - real_of_int f then f + 1
        else if even f then f else f + 1)"

definition binary64 :: "real \<Rightarrow> real" where
  "binary64 v =
    (if v = 0 then 0
     else (let e = max \<lfloor>log 2 \<bar>v\<bar>\<rfloor> (- 1022);
               q = 2 powr (real_of_int e - 52)
           in real_of_int (roundToEven (v / q)) * q))"

text \<open>\<open>applyPosAndSize\<close> in double arithmetic.\<close>

definition applyPosAndSize_binary64 ::
  "real \<Rightarrow> real \<Rightarrow> uint8 \<Rightarrow> uint8 \<Rightarrow> int \<Rightarrow> int \<Rightarrow> real \<times> real" where
  "applyPosAndSize_binary64 xArg wArg xModeArg wModeArg parentPos parentSize =
    (let wOut =
           (if wModeArg = proportionalSize
              then real_of_int (roundToInt (binary64 (wArg * real_of_int parentSize)))
            else if wModeArg = parentSizeMinusAbsolute
              then real_of_int (max 0 (parentSize - roundToInt wArg))
            else real_of_int (roundToInt wArg));
         xOut =
           (if xModeArg AND proportionOfParentSize \<noteq> 0
              then binary64 (real_of_int parentPos + binary64 (xArg * real_of_int parentSize))
            else if xModeArg AND absoluteFromParentBottomRight \<noteq> 0
              then binary64 (real_of_int (parentPos + parentSize) - xArg)
            else if xModeArg AND absoluteFromParentCentre \<noteq> 0
              then binary64 (xArg + real_of_int (parentPos + int_div parentSize 2))
            else binary64 (xArg + real_of_int parentPos))
     in (if xModeArg AND anchorAtRightOrBottom \<noteq> 0 then binary64 (xOut - wOut)
         else if xModeArg AND anchorAtCentre \<noteq> 0 then binary64 (xOut - binary64 (wOut / 2))
         else xOut,
         wOut))"

text \<open>\<open>updatePosAndSize\<close> in double arithmetic.\<close>

definition updatePosAndSize_binary64 ::
  "real \<Rightarrow> real \<Rightarrow> real \<Rightarrow> real \<Rightarrow> uint8 \<Rightarrow> uint8 \<Rightarrow> int \<Rightarrow> int \<Rightarrow> real \<times> real" where
  "updatePosAndSize_binary64 xOut wOut xArg wArg xModeArg wModeArg parentPos parentSize =
    (let wOut' =
           (if wModeArg = proportionalSize
              then (if parentSize > 0 then binary64 (wArg / real_of_int parentSize) else wOut)
            else if wModeArg = parentSizeMinusAbsolute
              then binary64 (real_of_int parentSize - wArg)
            else wArg);
         x1 =
           (if xModeArg AND anchorAtRightOrBottom \<noteq> 0 then binary64 (xArg + wArg)
            else if xModeArg AND anchorAtCentre \<noteq> 0 then binary64 (xArg + binary64 (wArg / 2))
            else xArg);
         xOut' =
           (if xModeArg AND proportionOfParentSize \<noteq> 0
              then (if parentSize > 0
                      then binary64 (binary64 (x1 - real_of_int parentPos)
                                       / real_of_int parentSize)
                    else xOut)
            else if xModeArg AND absoluteFromParentBottomRight \<noteq> 0
              then binary64 (real_of_int (parentPos + parentSize) - x1)
            else if xModeArg AND absoluteFromParentCentre \<noteq> 0
              then binary64 (x1 - real_of_int (parentPos + int_div parentSize 2))
            else binary64 (x1 - real_of_int parentPos))
     in (xOut', wOut'))"

text \<open>\<open>getRectangleDouble\<close> and \<open>getRectangle\<close> in double arithmetic.\<close>

definition getRectangleDouble_binary64 ::
  "PositionedRectangle \<Rightarrow> Rectangle \<Rightarrow> real \<times> real \<times> real \<times> real" where
  "getRectangleDouble_binary64 p target =
    (let (xo, wo) = applyPosAndSize_binary64 (pr_x p) (pr_w p) (xMode p) (wMode p)
                      (getX target) (getWidth target);
         (yo, ho) = applyPosAndSize_binary64 (pr_y p) (pr_h p) (yMode p) (hMode p)
                      (getY target) (getHeight target)
     in (xo, yo, wo, ho))"

definition getRectangle_binary64 :: "PositionedRectangle \<Rightarrow> Rectangle \<Rightarrow> Rectangle" where
  "getRectangle_binary64 p target =
    (let (xo, wo) = applyPosAndSize_binary64 (pr_x p) (pr_w p) (xMode p) (wMode p)
                      (getX target) (getWidth target);
         (yo, ho) = applyPosAndSize_binary64 (pr_y p) (pr_h p) (yMode p) (hMode p)
                      (getY target) (getHeight target)
     in \<lparr> getX = roundToInt xo, getY = roundToInt yo,
          getWidth = roundToInt wo, getHeight = roundToInt ho \<rparr>)"

text \<open>
  \<open>setModes\<close>, in double arithmetic: the enum arguments are given by their values; an
  axis is only re-expressed when one of its two mode bytes changes.
\<close>

definition setModes ::
  "PositionedRectangle \<Rightarrow> uint8 \<Rightarrow> uint8 \<Rightarrow> uint8 \<Rightarrow> uint8 \<Rightarrow> uint8 \<Rightarrow> uint8 \<Rightarrow> Rectangle
     \<Rightarrow> PositionedRectangle" where
  "setModes p xAnchor xModeArg yAnchor yModeArg widthMode heightMode target =
    (let p1 =
           (if xMode p \<noteq> (xAnchor OR xModeArg) \<or> wMode p \<noteq> widthMode
              then (let (tx, tw) = applyPosAndSize_binary64 (pr_x p) (pr_w p) (xMode p) (wMode p)
                                     (getX target) (getWidth target);
                        (x', w') = updatePosAndSize_binary64 (pr_x p) (pr_w p) tx tw
                                     (xAnchor OR xModeArg) widthMode
                                     (getX target) (getWidth target)
                    in p \<lparr> pr_x := x', pr_w := w',
                           xMode := xAnchor OR xModeArg, wMode := widthMode \<rparr>)
            else p)
     in (if yMode p1 \<noteq> (yAnchor OR yModeArg) \<or> hMode p1 \<noteq> heightMode
           then (let (ty, th) = applyPosAndSize_binary64 (pr_y p1) (pr_h p1) (yMode p1) (hMode p1)
                                  (getY target) (getHeight target);
                     (y', h') = updatePosAndSize_binary64 (pr_y p1) (pr_h p1) ty th
                                  (yAnchor OR yModeArg) heightMode
                                  (getY target) (getHeight target)
                 in p1 \<lparr> pr_y := y', pr_h := h',
                         yMode := yAnchor OR yModeArg, hMode := heightMode \<rparr>)
         else p1))"

section \<open>Text encoding\<close>

text \<open>
  Modelled from the spec: the JUCE \<open>String\<close> and \<open>StringArray\<close> helpers that the
  text encoding calls (\<open>addTokens\<close>, \<open>operator[]\<close>, \<open>containsChar\<close>,
  \<open>removeCharacters\<close>, \<open>upToFirstOccurrenceOf\<close>, \<open>getDoubleValue\<close> and
  \<open>operator<<\<close> for a double) are not part of this file. The spec gives the grammar
  they serve: four tokens separated by whitespace, each a decimal number with at most 3
  decimal places followed by suffix letters that are stripped before the numeric
  conversion; a missing token and a non-numeric core are a parse error. The parse error
  is the result \<open>None\<close>: the callers use every result unchecked, so an error of a helper
  is the error of the caller. Exponents are not modelled.
\<close>

definition isBreakCharacter :: "char \<Rightarrow> bool" where
  "isBreakCharacter c \<longleftrightarrow> c = CHR '' '' \<or> c = CHR 0x0A \<or> c = CHR 0x0D \<or> c = CHR 0x09"

text \<open>
  \<open>StringArray::addTokens (text, false)\<close>: the text is cut at every break character;
  empty text adds no token.
\<close>

fun splitTokens :: "string \<Rightarrow> string list" where
  "splitTokens [] = [[]]"
| "splitTokens (c # cs) =
     (if isBreakCharacter c then [] # splitTokens cs
      else (case splitTokens cs of
              t # ts \<Rightarrow> (c # t) # ts
            | [] \<Rightarrow> [[c]]))"

definition addTokens :: "string \<Rightarrow> string list" where
  "addTokens text = (if text = [] then [] else splitTokens text)"

text \<open>
  \<open>StringArray::operator[]\<close>: the token at an index, and the parse error for an index
  past the last token (the spec: missing tokens are a malformed-input error).
\<close>

definition StringArray_at :: "string list \<Rightarrow> nat \<Rightarrow> string option" where
  "StringArray_at strings i = (if i < length strings then Some (strings ! i) else None)"

definition containsChar :: "string \<Rightarrow> char \<Rightarrow> bool" where
  "containsChar s c \<longleftrightarrow> c \<in> set s"

definition removeCharacters :: "string \<Rightarrow> string \<Rightarrow> string" where
  "removeCharacters s charactersToRemove = filter (\<lambda>c. c \<notin> set charactersToRemove) s"

text \<open>\<open>upToFirstOccurrenceOf\<close>, for the one-character substring that the source passes.\<close>

definition upToFirstOccurrenceOf :: "string \<Rightarrow> char \<Rightarrow> string" where
  "upToFirstOccurrenceOf s c = takeWhile (\<lambda>d. d \<noteq> c) s"

definition isDigit :: "char \<Rightarrow> bool" where
  "isDigit c \<longleftrightarrow> (48::nat) \<le> of_char c \<and> of_char c \<le> (57::nat)"

definition digitValue :: "char \<Rightarrow> nat" where
  "digitValue c = of_char c - 48"

definition digitChar :: "nat \<Rightarrow> char" where
  "digitChar n = char_of (48 + n)"

definition isWhitespace :: "char \<Rightarrow> bool" where
  "isWhitespace c \<longleftrightarrow> c = CHR '' '' \<or> ((9::nat) \<le> of_char c \<and> of_char c \<le> (13::nat))"

fun readDigits :: "nat \<Rightarrow> string \<Rightarrow> nat \<times> string" where
  "readDigits acc [] = (acc, [])"
| "readDigits acc (c # cs) =
     (if isDigit c then readDigits (acc * 10 + digitValue c) cs else (acc, c # cs))"

fun readFraction :: "string \<Rightarrow> real" where
  "readFraction [] = 0"
| "readFraction (c # cs) =
     (if isDigit c then (real (digitValue c) + readFraction cs) / 10 else 0)"

text \<open>
  The number at the start of a text: leading whitespace, an optional sign, the digits
  before and after the decimal point; reading stops at the first character that fits no
  more.
\<close>

definition readDoubleValue :: "string \<Rightarrow> real" where
  "readDoubleValue s =
    (let t = dropWhile isWhitespace s;
         negative = (case t of c # cs \<Rightarrow> c = CHR ''-'' | [] \<Rightarrow> False);
         t1 = (case t of c # cs \<Rightarrow> if c = CHR ''-'' \<or> c = CHR ''+'' then cs else t | [] \<Rightarrow> t);
         (ip, t2) = readDigits 0 t1;
         fp = (case t2 of c # cs \<Rightarrow> if c = CHR ''.'' then readFraction cs else 0 | [] \<Rightarrow> 0);
         m = real ip + fp
     in if negative then - m else m)"

text \<open>
  Whether a text starts with a number: after whitespace and an optional sign comes a
  digit, or a decimal point followed by a digit.
\<close>

definition startsWithNumber :: "string \<Rightarrow> bool" where
  "startsWithNumber s =
    (let t = dropWhile isWhitespace s;
         t1 = (case t of c # cs \<Rightarrow> if c = CHR ''-'' \<or> c = CHR ''+'' then cs else t | [] \<Rightarrow> t)
     in case t1 of
          [] \<Rightarrow> False
        | c # cs \<Rightarrow>
            isDigit c \<or> (c = CHR ''.'' \<and> (case cs of [] \<Rightarrow> False | d # ds \<Rightarrow> isDigit d)))"

text \<open>
  \<open>String::getDoubleValue\<close>: the number that the text starts with, and the parse error
  for text that starts with no number (the spec: a non-numeric core is a parse error).
\<close>

definition getDoubleValue :: "string \<Rightarrow> real option" where
  "getDoubleValue s = (if startsWithNumber s then Some (readDoubleValue s) else None)"

fun natDigits :: "nat \<Rightarrow> string" where
  "natDigits n = (if n < 10 then [digitChar n] else natDigits (n div 10) @ [digitChar (n mod 10)])"

declare natDigits.simps [simp del]

text \<open>The \<open>k\<close> digits after the decimal point of \<open>n / 10 ^ k\<close>, without trailing zeros.\<close>

fun fractionDigits :: "nat \<Rightarrow> nat \<Rightarrow> string" where
  "fractionDigits 0 n = []"
| "fractionDigits (Suc k) n =
     (if n = 0 then [] else digitChar (n div 10 ^ k) # fractionDigits k (n mod 10 ^ k))"

text \<open>
  \<open>operator<< (String&, double)\<close>, the text of a number: the spec has the numeric
  magnitude formatted to at most 3 decimal places.
\<close>

definition String_of_double :: "real \<Rightarrow> string" where
  "String_of_double v =
    (let k = round (v * 1000);
         n = nat \<bar>k\<bar>
     in (if k < 0 then ''-'' else [])
        @ natDigits (n div 1000)
        @ (if n mod 1000 = 0 then [] else CHR ''.'' # fractionDigits 3 (n mod 1000)))"

text \<open>
  \<open>addPosDescription\<close> and \<open>addSizeDescription\<close> append to the string \<open>s\<close>, which is
  returned.
\<close>

definition addPosDescription :: "string \<Rightarrow> uint8 \<Rightarrow> real \<Rightarrow> string" where
  "addPosDescription s mode val =
    (let s1 =
           (if mode AND proportionOfParentSize \<noteq> 0
              then s @ String_of_double (real_of_int (roundToInt (val * 100000)) / 1000) @ ''%''
            else
              (let s2 = s @ String_of_double (real_of_int (roundToInt (val * 100)) / 100)
               in if mode AND absoluteFromParentBottomRight \<noteq> 0 then s2 @ ''R''
                  else if mode AND absoluteFromParentCentre \<noteq> 0 then s2 @ ''C''
                  else s2))
     in if mode AND anchorAtRightOrBottom \<noteq> 0 then s1 @ ''r''
        else if mode AND anchorAtCentre \<noteq> 0 then s1 @ ''c''
        else s1)"

definition addSizeDescription :: "string \<Rightarrow> uint8 \<Rightarrow> real \<Rightarrow> string" where
  "addSizeDescription s mode val =
    (if mode = proportionalSize
       then s @ String_of_double (real_of_int (roundToInt (val * 100000)) / 1000) @ ''%''
     else if mode = parentSizeMinusAbsolute
       then s @ String_of_double (real_of_int (roundToInt (val * 100)) / 100) @ ''M''
     else s @ String_of_double (real_of_int (roundToInt (val * 100)) / 100))"

text \<open>\<open>PositionedRectangle::toString\<close>\<close>

definition toString :: "PositionedRectangle \<Rightarrow> string" where
  "toString p =
    (let s = [];
         s = addPosDescription s (xMode p) (pr_x p) @ '' '';
         s = addPosDescription s (yMode p) (pr_y p) @ '' '';
         s = addSizeDescription s (wMode p) (pr_w p) @ '' '';
         s = addSizeDescription s (hMode p) (pr_h p)
     in s)"

text \<open>
  \<open>decodePosString\<close> and \<open>decodeSizeString\<close>: the reference outputs \<open>mode\<close> and
  \<open>value\<close> are returned as a pair; a parse error of \<open>getDoubleValue\<close> is passed on.
\<close>

definition decodePosString :: "string \<Rightarrow> (uint8 \<times> real) option" where
  "decodePosString s =
    (let mode = (if containsChar s CHR ''r'' then anchorAtRightOrBottom
                 else if containsChar s CHR ''c'' then anchorAtCentre
                 else anchorAtLeftOrTop)
     in if containsChar s CHR ''%''
          then do {
            v \<leftarrow> getDoubleValue (removeCharacters s ''%rcRC'');
            Some (mode OR proportionOfParentSize, v / 100)
          }
        else do {
            v \<leftarrow> getDoubleValue (removeCharacters s ''rcRC'');
            Some ((if containsChar s CHR ''R'' then mode OR absoluteFromParentBottomRight
                   else if containsChar s CHR ''C'' then mode OR absoluteFromParentCentre
                   else mode OR absoluteFromParentTopLeft),
                  v)
          })"

definition decodeSizeString :: "string \<Rightarrow> (uint8 \<times> real) option" where
  "decodeSizeString s =
    (if containsChar s CHR ''%''
       then do {
         v \<leftarrow> getDoubleValue (upToFirstOccurrenceOf s CHR ''%'');
         Some (proportionalSize, v / 100)
       }
     else if containsChar s CHR ''M''
       then do { v \<leftarrow> getDoubleValue s; Some (parentSizeMinusAbsolute, v) }
     else do { v \<leftarrow> getDoubleValue s; Some (absoluteSize, v) })"

text \<open>
  The constructor \<open>PositionedRectangle (const String& stringVersion)\<close>: the four
  tokens are fetched and decoded in order, and the first parse error is the result.
\<close>

definition PositionedRectangle_of_String :: "string \<Rightarrow> PositionedRectangle option" where
  "PositionedRectangle_of_String stringVersion =
    (let tokens = addTokens stringVersion
     in do {
       t0 \<leftarrow> StringArray_at tokens 0;
       (xm, x) \<leftarrow> decodePosString t0;
       t1 \<leftarrow> StringArray_at tokens 1;
       (ym, y) \<leftarrow> decodePosString t1;
       t2 \<leftarrow> StringArray_at tokens 2;
       (wm, w) \<leftarrow> decodeSizeString t2;
       t3 \<leftarrow> StringArray_at tokens 3;
       (hm, h) \<leftarrow> decodeSizeString t3;
       Some \<lparr> pr_x = x, pr_y = y, pr_w = w, pr_h = h,
              xMode = xm, yMode = ym, wMode = wm, hMode = hm \<rparr>
     })"

text \<open>
  The mode bytes that the class can hold: the constructors and \<open>setModes\<close>, called with
  enumerators, store one anchor bit combined with one position basis bit for x and y, and
  one size mode for w and h.
\<close>

definition isValidPositionMode :: "uint8 \<Rightarrow> bool" where
  "isValidPositionMode m \<longleftrightarrow>
     m \<in> (\<lambda>(a, b). a OR b) `
           ({anchorAtLeftOrTop, anchorAtRightOrBottom, anchorAtCentre}
            \<times> {absoluteFromParentTopLeft, absoluteFromParentBottomRight,
               absoluteFromParentCentre, proportionOfParentSize})"

definition isValidSizeMode :: "uint8 \<Rightarrow> bool" where
  "isValidSizeMode m \<longleftrightarrow> m \<in> {absoluteSize, parentSizeMinusAbsolute, proportionalSize}"

text \<open>The characters that the text of a number is made of.\<close>

definition isNumberChar :: "char \<Rightarrow> bool" where
  "isNumberChar c \<longleftrightarrow> isDigit c \<or> c = CHR ''-'' \<or> c = CHR ''.''"

section \<open>RelativePositionedRectangle\<close>

text \<open>
  Modelled from the spec: \<open>ComponentLayout::findComponentWithId\<close> is not part of this
  file. The spec gives the resolver as \<open>findById(identifier) -> optional<ElementBounds>\<close>;
  a found component is represented by its bounds, and the \<open>layout\<close> pointer, which may
  be null, by an option.
\<close>

type_synonym ComponentLayout = "64 word \<Rightarrow> Rectangle option"

record RelativePositionedRectangle =
  rect :: PositionedRectangle
  relativeToX :: "64 word"
  relativeToY :: "64 word"
  relativeToW :: "64 word"
  relativeToH :: "64 word"

text \<open>\<open>getRelativeTargetBounds\<close>: the outputs in the order \<open>(x, xw, y, yh, w, h)\<close>.\<close>

definition getRelativeTargetBounds ::
  "RelativePositionedRectangle \<Rightarrow> Rectangle \<Rightarrow> ComponentLayout option
     \<Rightarrow> int \<times> int \<times> int \<times> int \<times> int \<times> int" where
  "getRelativeTargetBounds r parentArea layout =
    (let (cx, cy, cw, ch) =
           (case layout of
              None \<Rightarrow> (None, None, None, None)
            | Some findComponentWithId \<Rightarrow>
                (findComponentWithId (relativeToX r), findComponentWithId (relativeToY r),
                 findComponentWithId (relativeToW r), findComponentWithId (relativeToH r)));
         x = getX parentArea + (case cx of Some c \<Rightarrow> getX c | None \<Rightarrow> 0);
         y = getY parentArea + (case cy of Some c \<Rightarrow> getY c | None \<Rightarrow> 0);
         w = (case cw of Some c \<Rightarrow> getWidth c | None \<Rightarrow> getWidth parentArea);
         h = (case ch of Some c \<Rightarrow> getHeight c | None \<Rightarrow> getHeight parentArea);
         xw = (case cx of Some c \<Rightarrow> getWidth c | None \<Rightarrow> getWidth parentArea);
         yh = (case cy of Some c \<Rightarrow> getHeight c | None \<Rightarrow> getHeight parentArea)
     in (x, xw, y, yh, w, h))"

text \<open>\<open>RelativePositionedRectangle::getRectangle\<close>\<close>

definition RelativePositionedRectangle_getRectangle ::
  "RelativePositionedRectangle \<Rightarrow> Rectangle \<Rightarrow> ComponentLayout option \<Rightarrow> Rectangle" where
  "RelativePositionedRectangle_getRectangle r parentArea layout =
    (let (x, xw, y, yh, w, h) = getRelativeTargetBounds r parentArea layout;
         xyRect = (if xw \<le> 0 \<or> yh \<le> 0 then Rectangle_empty
                   else getRectangle (rect r)
                          \<lparr> getX = x, getY = y, getWidth = xw, getHeight = yh \<rparr>);
         whRect = (if w \<le> 0 \<or> h \<le> 0 then Rectangle_empty
                   else getRectangle (rect r)
                          \<lparr> getX = x, getY = y, getWidth = w, getHeight = h \<rparr>)
     in \<lparr> getX = getX xyRect, getY = getY xyRect,
          getWidth = getWidth whRect, getHeight = getHeight whRect \<rparr>)"

text \<open>\<open>RelativePositionedRectangle::toString\<close>\<close>

definition RelativePositionedRectangle_toString ::
  "RelativePositionedRectangle \<Rightarrow> string option" where
  "RelativePositionedRectangle_toString r =
    (let toks = addTokens (toString (rect r))
     in do {
       t0 \<leftarrow> StringArray_at toks 0;
       t1 \<leftarrow> StringArray_at toks 1;
       Some (t0 @ '' '' @ t1)
     })"

section \<open>Query helper\<close>

text \<open>
  C5. \<open>isPositionAbsolute\<close> is documented to return true when size and position are
  constant; the default-constructed rectangle (left/top anchor, from-parent-top-left
  basis, absolute sizes) is such a rectangle, yet the code answers false for it: it
  compares the whole mode byte, anchor bit included, with the basis bit alone.
\<close>

theorem isPositionAbsolute_default_false:
  "\<not> isPositionAbsolute PositionedRectangle_default"
  by (simp add: isPositionAbsolute_def PositionedRectangle_default_def mode_defs)

text \<open>More generally, the answer is false whenever the x mode byte is valid.\<close>

lemma isPositionAbsolute_invalid_mode:
  "isPositionAbsolute p \<Longrightarrow> \<not> isValidPositionMode (xMode p)"
  by (simp add: isPositionAbsolute_def isValidPositionMode_def mode_defs)

section \<open>Inverse evaluation against an empty reference\<close>

lemma updatePosAndSize_nonpositive_size:
  assumes "parentSize \<le> 0"
  shows "snd (updatePosAndSize xOut wOut xa wa xm wm parentPos parentSize) =
           (if wm = proportionalSize then wOut
            else if wm = parentSizeMinusAbsolute then real_of_int parentSize - wa
            else wa)"
    and "fst (updatePosAndSize xOut wOut xa wa xm wm parentPos parentSize) =
           (let x1 = (if xm AND anchorAtRightOrBottom \<noteq> 0 then xa + wa
                      else if xm AND anchorAtCentre \<noteq> 0 then xa + wa / 2
                      else xa)
            in if xm AND proportionOfParentSize \<noteq> 0 then xOut
               else if xm AND absoluteFromParentBottomRight \<noteq> 0
                 then real_of_int (parentPos + parentSize) - x1
               else if xm AND absoluteFromParentCentre \<noteq> 0
                 then x1 - real_of_int (parentPos + int_div parentSize 2)
               else x1 - real_of_int parentPos)"
  using assms by (simp_all add: updatePosAndSize_def Let_def)

lemma updateFrom_fields:
  "pr_x (updateFrom p A R) =
     fst (updatePosAndSize (pr_x p) (pr_w p) (real_of_int (getX A)) (real_of_int (getWidth A))
            (xMode p) (wMode p) (getX R) (getWidth R))"
  "pr_w (updateFrom p A R) =
     snd (updatePosAndSize (pr_x p) (pr_w p) (real_of_int (getX A)) (real_of_int (getWidth A))
            (xMode p) (wMode p) (getX R) (getWidth R))"
  "pr_y (updateFrom p A R) =
     fst (updatePosAndSize (pr_y p) (pr_h p) (real_of_int (getY A)) (real_of_int (getHeight A))
            (yMode p) (hMode p) (getY R) (getHeight R))"
  "pr_h (updateFrom p A R) =
     snd (updatePosAndSize (pr_y p) (pr_h p) (real_of_int (getY A)) (real_of_int (getHeight A))
            (yMode p) (hMode p) (getY R) (getHeight R))"
  "xMode (updateFrom p A R) = xMode p"
  "yMode (updateFrom p A R) = yMode p"
  "wMode (updateFrom p A R) = wMode p"
  "hMode (updateFrom p A R) = hMode p"
  by (simp_all add: updateFrom_def Let_def split_beta)

text \<open>
  C7. When the reference rectangle has non-positive width, \<open>updateFrom\<close> leaves a
  proportional raw width and a proportional raw x as they were stored, while a
  non-proportional width and x are still recomputed from the new position (the
  parent-minus width as reference width minus new width, an absolute width as the new
  width, x from the anchor-corrected new x by the inverse of its basis). The same holds
  for height and y when the reference has non-positive height.
\<close>

theorem updateFrom_empty_reference:
  "(getWidth R \<le> 0 \<longrightarrow>
      (wMode p = proportionalSize \<longrightarrow> pr_w (updateFrom p A R) = pr_w p)
    \<and> (xMode p AND proportionOfParentSize \<noteq> 0 \<longrightarrow> pr_x (updateFrom p A R) = pr_x p)
    \<and> (wMode p = parentSizeMinusAbsolute \<longrightarrow>
         pr_w (updateFrom p A R) = real_of_int (getWidth R) - real_of_int (getWidth A))
    \<and> (wMode p \<noteq> proportionalSize \<and> wMode p \<noteq> parentSizeMinusAbsolute \<longrightarrow>
         pr_w (updateFrom p A R) = real_of_int (getWidth A))
    \<and> (xMode p AND proportionOfParentSize = 0 \<longrightarrow>
         pr_x (updateFrom p A R) =
           (let x1 = (if xMode p AND anchorAtRightOrBottom \<noteq> 0
                        then real_of_int (getX A) + real_of_int (getWidth A)
                      else if xMode p AND anchorAtCentre \<noteq> 0
                        then real_of_int (getX A) + real_of_int (getWidth A) / 2
                      else real_of_int (getX A))
            in if xMode p AND absoluteFromParentBottomRight \<noteq> 0
                 then real_of_int (getX R + getWidth R) - x1
               else if xMode p AND absoluteFromParentCentre \<noteq> 0
                 then x1 - real_of_int (getX R + int_div (getWidth R) 2)
               else x1 - real_of_int (getX R))))
   \<and> (getHeight R \<le> 0 \<longrightarrow>
      (hMode p = proportionalSize \<longrightarrow> pr_h (updateFrom p A R) = pr_h p)
    \<and> (yMode p AND proportionOfParentSize \<noteq> 0 \<longrightarrow> pr_y (updateFrom p A R) = pr_y p)
    \<and> (hMode p = parentSizeMinusAbsolute \<longrightarrow>
         pr_h (updateFrom p A R) = real_of_int (getHeight R) - real_of_int (getHeight A))
    \<and> (hMode p \<noteq> proportionalSize \<and> hMode p \<noteq> parentSizeMinusAbsolute \<longrightarrow>
         pr_h (updateFrom p A R) = real_of_int (getHeight A))
    \<and> (yMode p AND proportionOfParentSize = 0 \<longrightarrow>
         pr_y (updateFrom p A R) =
           (let y1 = (if yMode p AND anchorAtRightOrBottom \<noteq> 0
                        then real_of_int (getY A) + real_of_int (getHeight A)
                      else if yMode p AND anchorAtCentre \<noteq> 0
                        then real_of_int (getY A) + real_of_int (getHeight A) / 2
                      else real_of_int (getY A))
            in if yMode p AND absoluteFromParentBottomRight \<noteq> 0
                 then real_of_int (getY R + getHeight R) - y1
               else if yMode p AND absoluteFromParentCentre \<noteq> 0
                 then y1 - real_of_int (getY R + int_div (getHeight R) 2)
               else y1 - real_of_int (getY R))))"
proof (intro conjI impI)
  assume "getWidth R \<le> 0"
  note w = updatePosAndSize_nonpositive_size [OF this]
  show "wMode p = proportionalSize \<Longrightarrow> pr_w (updateFrom p A R) = pr_w p"
    by (simp add: updateFrom_fields w)
  show "xMode p AND proportionOfParentSize \<noteq> 0 \<Longrightarrow> pr_x (updateFrom p A R) = pr_x p"
    by (simp add: updateFrom_fields w Let_def)
  show "wMode p = parentSizeMinusAbsolute \<Longrightarrow>
          pr_w (updateFrom p A R) = real_of_int (getWidth R) - real_of_int (getWidth A)"
    by (simp add: updateFrom_fields w mode_defs)
  show "wMode p \<noteq> proportionalSize \<and> wMode p \<noteq> parentSizeMinusAbsolute \<Longrightarrow>
          pr_w (updateFrom p A R) = real_of_int (getWidth A)"
    by (simp add: updateFrom_fields w)
  show "xMode p AND proportionOfParentSize = 0 \<Longrightarrow>
         pr_x (updateFrom p A R) =
           (let x1 = (if xMode p AND anchorAtRightOrBottom \<noteq> 0
                        then real_of_int (getX A) + real_of_int (getWidth A)
                      else if xMode p AND anchorAtCentre \<noteq> 0
                        then real_of_int (getX A) + real_of_int (getWidth A) / 2
                      else real_of_int (getX A))
            in if xMode p AND absoluteFromParentBottomRight \<noteq> 0
                 then real_of_int (getX R + getWidth R) - x1
               else if xMode p AND absoluteFromParentCentre \<noteq> 0
                 then x1 - real_of_int (getX R + int_div (getWidth R) 2)
               else x1 - real_of_int (getX R))"
    by (simp add: updateFrom_fields w Let_def)
next
  assume "getHeight R \<le> 0"
  note h = updatePosAndSize_nonpositive_size [OF this]
  show "hMode p = proportionalSize \<Longrightarrow> pr_h (updateFrom p A R) = pr_h p"
    by (simp add: updateFrom_fields h)
  show "yMode p AND proportionOfParentSize \<noteq> 0 \<Longrightarrow> pr_y (updateFrom p A R) = pr_y p"
    by (simp add: updateFrom_fields h Let_def)
  show "hMode p = parentSizeMinusAbsolute \<Longrightarrow>
          pr_h (updateFrom p A R) = real_of_int (getHeight R) - real_of_int (getHeight A)"
    by (simp add: updateFrom_fields h mode_defs)
  show "hMode p \<noteq> proportionalSize \<and> hMode p \<noteq> parentSizeMinusAbsolute \<Longrightarrow>
          pr_h (updateFrom p A R) = real_of_int (getHeight A)"
    by (simp add: updateFrom_fields h)
  show "yMode p AND proportionOfParentSize = 0 \<Longrightarrow>
         pr_y (updateFrom p A R) =
           (let y1 = (if yMode p AND anchorAtRightOrBottom \<noteq> 0
                        then real_of_int (getY A) + real_of_int (getHeight A)
                      else if yMode p AND anchorAtCentre \<noteq> 0
                        then real_of_int (getY A) + real_of_int (getHeight A) / 2
                      else real_of_int (getY A))
            in if yMode p AND absoluteFromParentBottomRight \<noteq> 0
                 then real_of_int (getY R + getHeight R) - y1
               else if yMode p AND absoluteFromParentCentre \<noteq> 0
                 then y1 - real_of_int (getY R + int_div (getHeight R) 2)
               else y1 - real_of_int (getY R))"
    by (simp add: updateFrom_fields h Let_def)
qed

theorem updateFrom_empty_reference_witness:
  "getWidth Rectangle_empty \<le> 0 \<and> getHeight Rectangle_empty \<le> 0
   \<and> pr_w (updateFrom
        \<lparr> pr_x = 1/4, pr_y = 3, pr_w = 1/2, pr_h = 7,
          xMode = anchorAtLeftOrTop OR proportionOfParentSize,
          yMode = anchorAtCentre OR absoluteFromParentBottomRight,
          wMode = proportionalSize, hMode = parentSizeMinusAbsolute \<rparr>
        \<lparr> getX = 10, getY = 20, getWidth = 30, getHeight = 40 \<rparr> Rectangle_empty) = 1/2
   \<and> pr_x (updateFrom
        \<lparr> pr_x = 1/4, pr_y = 3, pr_w = 1/2, pr_h = 7,
          xMode = anchorAtLeftOrTop OR proportionOfParentSize,
          yMode = anchorAtCentre OR absoluteFromParentBottomRight,
          wMode = proportionalSize, hMode = parentSizeMinusAbsolute \<rparr>
        \<lparr> getX = 10, getY = 20, getWidth = 30, getHeight = 40 \<rparr> Rectangle_empty) = 1/4
   \<and> pr_h (updateFrom
        \<lparr> pr_x = 1/4, pr_y = 3, pr_w = 1/2, pr_h = 7,
          xMode = anchorAtLeftOrTop OR proportionOfParentSize,
          yMode = anchorAtCentre OR absoluteFromParentBottomRight,
          wMode = proportionalSize, hMode = parentSizeMinusAbsolute \<rparr>
        \<lparr> getX = 10, getY = 20, getWidth = 30, getHeight = 40 \<rparr> Rectangle_empty) = - 40
   \<and> pr_y (updateFrom
        \<lparr> pr_x = 1/4, pr_y = 3, pr_w = 1/2, pr_h = 7,
          xMode = anchorAtLeftOrTop OR proportionOfParentSize,
          yMode = anchorAtCentre OR absoluteFromParentBottomRight,
          wMode = proportionalSize, hMode = parentSizeMinusAbsolute \<rparr>
        \<lparr> getX = 10, getY = 20, getWidth = 30, getHeight = 40 \<rparr> Rectangle_empty) = - 40"
  using updateFrom_empty_reference
    [of Rectangle_empty
        "\<lparr> pr_x = 1/4, pr_y = 3, pr_w = 1/2, pr_h = 7,
          xMode = anchorAtLeftOrTop OR proportionOfParentSize,
          yMode = anchorAtCentre OR absoluteFromParentBottomRight,
          wMode = proportionalSize, hMode = parentSizeMinusAbsolute \<rparr>"
        "\<lparr> getX = 10, getY = 20, getWidth = 30, getHeight = 40 \<rparr>"]
  by (simp add: Rectangle_empty_def mode_defs int_div_def)

section \<open>Degenerate reference rectangles of the relative layer\<close>

text \<open>
  C8. In \<open>RelativePositionedRectangle::getRectangle\<close>, when the position-reference
  rectangle \<open>(x, y, xw, yh)\<close> has non-positive width or height the output X and Y are
  zero, and when the size-reference rectangle \<open>(x, y, w, h)\<close> has non-positive width or
  height the output W and H are zero.
\<close>

theorem RelativePositionedRectangle_getRectangle_degenerate:
  "(case getRelativeTargetBounds r parentArea layout of
      (x, xw, y, yh, w, h) \<Rightarrow>
        (xw \<le> 0 \<or> yh \<le> 0 \<longrightarrow>
           getX (RelativePositionedRectangle_getRectangle r parentArea layout) = 0
         \<and> getY (RelativePositionedRectangle_getRectangle r parentArea layout) = 0)
      \<and> (w \<le> 0 \<or> h \<le> 0 \<longrightarrow>
           getWidth (RelativePositionedRectangle_getRectangle r parentArea layout) = 0
         \<and> getHeight (RelativePositionedRectangle_getRectangle r parentArea layout) = 0))"
  by (auto simp add: RelativePositionedRectangle_getRectangle_def Rectangle_empty_def
        Let_def split: prod.splits)

theorem RelativePositionedRectangle_getRectangle_degenerate_witness:
  "getRelativeTargetBounds
     \<lparr> rect = PositionedRectangle_default, relativeToX = 5, relativeToY = 0,
       relativeToW = 0, relativeToH = 0 \<rparr>
     \<lparr> getX = 0, getY = 0, getWidth = 200, getHeight = 0 \<rparr>
     (Some (\<lambda>i. if i = 5 then Some \<lparr> getX = 3, getY = 4, getWidth = 0, getHeight = 9 \<rparr> else None))
    = (3, 0, 0, 0, 200, 0)
   \<and> RelativePositionedRectangle_getRectangle
     \<lparr> rect = PositionedRectangle_default, relativeToX = 5, relativeToY = 0,
       relativeToW = 0, relativeToH = 0 \<rparr>
     \<lparr> getX = 0, getY = 0, getWidth = 200, getHeight = 0 \<rparr>
     (Some (\<lambda>i. if i = 5 then Some \<lparr> getX = 3, getY = 4, getWidth = 0, getHeight = 9 \<rparr> else None))
    = Rectangle_empty"
  using RelativePositionedRectangle_getRectangle_degenerate
    [of "\<lparr> rect = PositionedRectangle_default, relativeToX = 5, relativeToY = 0,
       relativeToW = 0, relativeToH = 0 \<rparr>"
     "\<lparr> getX = 0, getY = 0, getWidth = 200, getHeight = 0 \<rparr>"
     "Some (\<lambda>i. if i = 5 then Some \<lparr> getX = 3, getY = 4, getWidth = 0, getHeight = 9 \<rparr> else None)"]
  by (simp add: getRelativeTargetBounds_def Rectangle_empty_def Let_def)

section \<open>Forward and inverse evaluation are mutually inverse\<close>

lemma roundToInt_of_int [simp]: "roundToInt (real_of_int k) = k"
  by (simp add: roundToInt_def)


lemma apply_after_update:
  assumes ps: "0 < ps"
    and nonneg: "wm = parentSizeMinusAbsolute \<longrightarrow> 0 \<le> k"
  shows "applyPosAndSize
           (fst (updatePosAndSize xo wo xa (real_of_int k) xm wm pp ps))
           (snd (updatePosAndSize xo wo xa (real_of_int k) xm wm pp ps))
           xm wm pp ps = (xa, real_of_int k)"
proof -
  have ps0: "real_of_int ps \<noteq> 0" using ps by simp
  have w1: "roundToInt (real_of_int k / real_of_int ps * real_of_int ps) = k"
    using ps0 by simp
  have w2: "roundToInt (real_of_int ps - real_of_int k) = ps - k"
    using roundToInt_of_int [of "ps - k"] by simp
  have w3: "wm = parentSizeMinusAbsolute \<Longrightarrow> max 0 k = k"
    using nonneg by simp
  have x1: "\<And>v. real_of_int pp + (v - real_of_int pp) / real_of_int ps * real_of_int ps = v"
    using ps0 by simp
  show ?thesis
    using ps by (simp add: applyPosAndSize_def updatePosAndSize_def Let_def w1 w2 w3 x1)
qed


lemma getRectangle_fields:
  "getX (getRectangle p R) =
     roundToInt (fst (applyPosAndSize (pr_x p) (pr_w p) (xMode p) (wMode p) (getX R) (getWidth R)))"
  "getWidth (getRectangle p R) =
     roundToInt (snd (applyPosAndSize (pr_x p) (pr_w p) (xMode p) (wMode p) (getX R) (getWidth R)))"
  "getY (getRectangle p R) =
     roundToInt (fst (applyPosAndSize (pr_y p) (pr_h p) (yMode p) (hMode p) (getY R) (getHeight R)))"
  "getHeight (getRectangle p R) =
     roundToInt (snd (applyPosAndSize (pr_y p) (pr_h p) (yMode p) (hMode p) (getY R) (getHeight R)))"
  by (simp_all add: getRectangle_def Let_def split_beta)





text \<open>
  C2, as stated, fails for an absolute rectangle of negative size on an axis whose size
  mode is parent-minus: \<open>updateFrom\<close> stores reference size minus new size, and forward
  evaluation clamps the result at zero. With new width -5 against reference width 100 the
  stored raw width is 105 and forward evaluation gives width 0.
\<close>

theorem getRectangle_updateFrom_counterexample:
  "0 < getWidth \<lparr> getX = 0, getY = 0, getWidth = 100, getHeight = 100 \<rparr>
   \<and> 0 < getHeight \<lparr> getX = 0, getY = 0, getWidth = 100, getHeight = 100 \<rparr>
   \<and> getRectangle
        (updateFrom
           \<lparr> pr_x = 0, pr_y = 0, pr_w = 0, pr_h = 0,
             xMode = anchorAtLeftOrTop OR absoluteFromParentTopLeft,
             yMode = anchorAtLeftOrTop OR absoluteFromParentTopLeft,
             wMode = parentSizeMinusAbsolute, hMode = absoluteSize \<rparr>
           \<lparr> getX = 0, getY = 0, getWidth = - 5, getHeight = 10 \<rparr>
           \<lparr> getX = 0, getY = 0, getWidth = 100, getHeight = 100 \<rparr>)
        \<lparr> getX = 0, getY = 0, getWidth = 100, getHeight = 100 \<rparr>
       = \<lparr> getX = 0, getY = 0, getWidth = 0, getHeight = 10 \<rparr>"
  by (simp add: getRectangle_def updateFrom_def applyPosAndSize_def updatePosAndSize_def
        roundToInt_def mode_defs)

text \<open>
  C2, amended. For a reference rectangle with strictly positive width and height and an
  absolute rectangle whose width (height) is not negative when the width (height) mode is
  parent-minus, forward evaluation after \<open>updateFrom\<close> against the same reference
  reproduces the absolute rectangle.
\<close>

theorem getRectangle_updateFrom:
  assumes "0 < getWidth R" and "0 < getHeight R"
    and "wMode p = parentSizeMinusAbsolute \<longrightarrow> 0 \<le> getWidth A"
    and "hMode p = parentSizeMinusAbsolute \<longrightarrow> 0 \<le> getHeight A"
  shows "getRectangle (updateFrom p A R) R = A"
proof -
  have x: "applyPosAndSize (pr_x (updateFrom p A R)) (pr_w (updateFrom p A R))
             (xMode p) (wMode p) (getX R) (getWidth R)
           = (real_of_int (getX A), real_of_int (getWidth A))"
    unfolding updateFrom_fields using assms(1,3) by (rule apply_after_update)
  have y: "applyPosAndSize (pr_y (updateFrom p A R)) (pr_h (updateFrom p A R))
             (yMode p) (hMode p) (getY R) (getHeight R)
           = (real_of_int (getY A), real_of_int (getHeight A))"
    unfolding updateFrom_fields using assms(2,4) by (rule apply_after_update)
  show ?thesis
    by (rule Rectangle.equality) (simp_all add: getRectangle_fields updateFrom_fields(5-8) x y)
qed

theorem getRectangle_updateFrom_witness:
  "getRectangle
     (updateFrom
        \<lparr> pr_x = 0, pr_y = 0, pr_w = 0, pr_h = 0,
          xMode = anchorAtCentre OR proportionOfParentSize,
          yMode = anchorAtRightOrBottom OR absoluteFromParentCentre,
          wMode = parentSizeMinusAbsolute, hMode = proportionalSize \<rparr>
        \<lparr> getX = 15, getY = 25, getWidth = 35, getHeight = 45 \<rparr>
        \<lparr> getX = 10, getY = 20, getWidth = 200, getHeight = 101 \<rparr>)
     \<lparr> getX = 10, getY = 20, getWidth = 200, getHeight = 101 \<rparr>
    = \<lparr> getX = 15, getY = 25, getWidth = 35, getHeight = 45 \<rparr>"
  using getRectangle_updateFrom
    [of "\<lparr> getX = 10, getY = 20, getWidth = 200, getHeight = 101 \<rparr>"
        "\<lparr> pr_x = 0, pr_y = 0, pr_w = 0, pr_h = 0,
          xMode = anchorAtCentre OR proportionOfParentSize,
          yMode = anchorAtRightOrBottom OR absoluteFromParentCentre,
          wMode = parentSizeMinusAbsolute, hMode = proportionalSize \<rparr>"
        "\<lparr> getX = 15, getY = 25, getWidth = 35, getHeight = 45 \<rparr>"]
  by simp

section \<open>Mode change\<close>

lemma roundToEven_error: "\<bar>real_of_int (roundToEven y) - y\<bar> \<le> 1 / 2"
proof -
  define f where "f = \<lfloor>y\<rfloor>"
  have f: "real_of_int f \<le> y" "y < real_of_int f + 1"
    unfolding f_def by linarith+
  consider "y - real_of_int f < 1 / 2" | "1 / 2 < y - real_of_int f" | "y - real_of_int f = 1 / 2"
    by linarith
  then show ?thesis
  proof cases
    case 1
    then have "roundToEven y = f" by (simp add: roundToEven_def f_def)
    then show ?thesis using f 1 by simp
  next
    case 2
    then have "roundToEven y = f + 1" by (simp add: roundToEven_def f_def)
    then show ?thesis using f 2 by simp
  next
    case 3
    then have "roundToEven y = f \<or> roundToEven y = f + 1"
      by (simp add: roundToEven_def f_def Let_def)
    then show ?thesis using f 3 by auto
  qed
qed

lemma roundToEven_of_int [simp]: "roundToEven (real_of_int k) = k"
  by (simp add: roundToEven_def)

lemma roundToEven_numeral [simp]: "roundToEven (numeral n) = numeral n"
  using roundToEven_of_int [of "numeral n"] by simp

lemma binary64_error:
  "\<bar>binary64 v - v\<bar> \<le> \<bar>v\<bar> / 2 ^ 53 + 2 powr (- 1075)"
proof (cases "v = 0")
  case True
  then show ?thesis by (simp add: binary64_def)
next
  case False
  define L where "L = \<lfloor>log 2 \<bar>v\<bar>\<rfloor>"
  define e where "e = max L (- 1022)"
  define q where "q = 2 powr (real_of_int e - 52)"
  have q: "0 < q" by (simp add: q_def)
  have b: "binary64 v = real_of_int (roundToEven (v / q)) * q"
    using False by (simp add: binary64_def Let_def q_def e_def L_def)
  have "binary64 v - v = (real_of_int (roundToEven (v / q)) - v / q) * q"
    using q by (simp add: b field_simps)
  then have "\<bar>binary64 v - v\<bar> = \<bar>real_of_int (roundToEven (v / q)) - v / q\<bar> * q"
    using q by (simp add: abs_mult)
  also have "\<dots> \<le> 1 / 2 * q"
    using roundToEven_error [of "v / q"] q by (intro mult_right_mono) simp_all
  finally have h: "\<bar>binary64 v - v\<bar> \<le> q / 2" by simp
  have half: "q / 2 = 2 powr (real_of_int e - 53)"
  proof -
    have "2 powr (real_of_int e - 53 + 1) = 2 powr (real_of_int e - 53) * 2 powr 1"
      by (rule powr_add)
    then have "q = 2 powr (real_of_int e - 53) * 2"
      by (simp add: q_def)
    then show ?thesis by simp
  qed
  show ?thesis
  proof (cases "- 1022 \<le> L")
    case True
    then have e: "e = L" by (simp add: e_def)
    have "2 powr real_of_int L \<le> \<bar>v\<bar>"
      using floor_log_eq_powr_iff [of "\<bar>v\<bar>" 2 L] False by (simp add: L_def)
    moreover have "2 powr (real_of_int L - 53) = 2 powr real_of_int L / 2 ^ 53"
      by (simp add: powr_diff)
    ultimately have "q / 2 \<le> \<bar>v\<bar> / 2 ^ 53"
      unfolding half e by (simp add: divide_right_mono)
    then show ?thesis using h by (smt (verit) powr_ge_zero)
  next
    case False
    then have e: "e = - 1022" by (simp add: e_def)
    have "q / 2 = 2 powr (- 1075)" unfolding half e by simp
    then show ?thesis using h by (smt (verit) divide_nonneg_nonneg abs_ge_zero zero_le_power zero_le_numeral)
  qed
qed

lemma binary64_small_error:
  assumes "\<bar>v\<bar> \<le> 2 ^ 34"
  shows "\<bar>binary64 v - v\<bar> \<le> 1 / 2 ^ 18"
proof -
  have "\<bar>v\<bar> / 2 ^ 53 \<le> 2 ^ 34 / 2 ^ 53"
    using assms by (intro divide_right_mono) simp_all
  moreover have "(2::real) powr (- 1075) \<le> 1 / 2 ^ 19"
    by (simp add: powr_neg_numeral)
  ultimately show ?thesis
    using binary64_error [of v] by simp
qed

lemma binary64_at:
  assumes "2 powr real_of_int e \<le> \<bar>v\<bar>" and "\<bar>v\<bar> < 2 powr (real_of_int e + 1)"
    and "- 1022 \<le> e"
  shows "binary64 v =
           real_of_int (roundToEven (v / 2 powr (real_of_int e - 52)))
             * 2 powr (real_of_int e - 52)"
proof -
  have v: "0 < \<bar>v\<bar>" using assms(1) by (smt (verit) powr_gt_zero)
  then have "\<lfloor>log 2 \<bar>v\<bar>\<rfloor> = e"
    using floor_log_eq_powr_iff [of "\<bar>v\<bar>" 2 e] assms(1,2) by simp
  then show ?thesis
    using v assms(3) by (simp add: binary64_def Let_def max_def)
qed

lemma binary64_0 [simp]: "binary64 0 = 0"
  by (simp add: binary64_def)

lemma binary64_values:
  "binary64 15 = 15"
  "binary64 (3 / 2) = 3 / 2"
  "binary64 (27 / 2) = 27 / 2"
  "binary64 (15 / 11) = 6141272219141585 / 4503599627370496"
  "binary64 (67553994410557435 / 4503599627370496) = 8444249301319679 / 562949953421312"
  "binary64 (8444249301319679 / 562949953421312) = 8444249301319679 / 562949953421312"
  "binary64 (7599824371187711 / 562949953421312) = 7599824371187711 / 562949953421312"
  using binary64_at [of 3 15] binary64_at [of 0 "3 / 2"] binary64_at [of 3 "27 / 2"]
    binary64_at [of 0 "15 / 11"] binary64_at [of 3 "67553994410557435 / 4503599627370496"]
    binary64_at [of 3 "8444249301319679 / 562949953421312"]
    binary64_at [of 3 "7599824371187711 / 562949953421312"]
  by (simp_all add: roundToEven_def powr_neg_numeral)

lemma powers:
  "(2::real) ^ 15 = 32768" "(2::real) ^ 18 = 262144" "(2::real) ^ 31 = 2147483648"
  "(2::real) ^ 32 = 4294967296" "(2::real) ^ 33 = 8589934592" "(2::real) ^ 34 = 17179869184"
  by simp_all

lemma binary64_div_mult:
  assumes "0 < ps" and "ps \<le> 2 ^ 31" and "\<bar>a\<bar> \<le> 2 ^ 34"
  shows "\<bar>binary64 (a / ps) * ps - a\<bar> \<le> 1 / 2 ^ 18"
proof -
  have "binary64 (a / ps) * ps - a = (binary64 (a / ps) - a / ps) * ps"
    using assms(1) by (simp add: field_simps)
  then have "\<bar>binary64 (a / ps) * ps - a\<bar> = \<bar>binary64 (a / ps) - a / ps\<bar> * ps"
    using assms(1) by (simp add: abs_mult)
  also have "\<dots> \<le> (\<bar>a / ps\<bar> / 2 ^ 53 + 2 powr (- 1075)) * ps"
    using binary64_error [of "a / ps"] assms(1) by (intro mult_right_mono) simp_all
  also have "\<dots> = \<bar>a\<bar> / 2 ^ 53 + 2 powr (- 1075) * ps"
    using assms(1) by (simp add: field_simps)
  also have "\<dots> \<le> 2 ^ 34 / 2 ^ 53 + 2 powr (- 1075) * 2 ^ 31"
    using assms(2,3) by (intro add_mono divide_right_mono mult_left_mono) simp_all
  also have "\<dots> \<le> 1 / 2 ^ 18"
    by (simp add: powr_neg_numeral)
  finally show ?thesis .
qed

lemma sub_add_roundtrip:
  assumes "\<bar>x1\<bar> \<le> 2 ^ 33" and "\<bar>c\<bar> \<le> 2 ^ 32"
  shows "\<bar>binary64 (binary64 (x1 - c) + c) - x1\<bar> \<le> 2 / 2 ^ 18"
proof -
  have 1: "\<bar>binary64 (x1 - c) - (x1 - c)\<bar> \<le> 1 / 2 ^ 18"
    using assms by (intro binary64_small_error) (unfold powers, linarith)
  have 2: "\<bar>binary64 (binary64 (x1 - c) + c) - (binary64 (x1 - c) + c)\<bar> \<le> 1 / 2 ^ 18"
    using assms 1 by (intro binary64_small_error) (unfold powers, linarith)
  show ?thesis using 1 2 by (unfold powers, linarith)
qed

lemma rsub_rsub_roundtrip:
  assumes "\<bar>x1\<bar> \<le> 2 ^ 33" and "\<bar>q\<bar> \<le> 2 ^ 32"
  shows "\<bar>binary64 (q - binary64 (q - x1)) - x1\<bar> \<le> 2 / 2 ^ 18"
proof -
  have 1: "\<bar>binary64 (q - x1) - (q - x1)\<bar> \<le> 1 / 2 ^ 18"
    using assms by (intro binary64_small_error) (unfold powers, linarith)
  have 2: "\<bar>binary64 (q - binary64 (q - x1)) - (q - binary64 (q - x1))\<bar> \<le> 1 / 2 ^ 18"
    using assms 1 by (intro binary64_small_error) (unfold powers, linarith)
  show ?thesis using 1 2 by (unfold powers, linarith)
qed

lemma proportion_roundtrip:
  assumes "0 < ps" and "ps \<le> 2 ^ 31" and "\<bar>x1\<bar> \<le> 2 ^ 33" and "\<bar>pp\<bar> \<le> 2 ^ 31"
  shows "\<bar>binary64 (pp + binary64 (binary64 (binary64 (x1 - pp) / ps) * ps)) - x1\<bar>
           \<le> 4 / 2 ^ 18"
proof -
  define a where "a = binary64 (x1 - pp)"
  define m where "m = binary64 (binary64 (a / ps) * ps)"
  have 1: "\<bar>a - (x1 - pp)\<bar> \<le> 1 / 2 ^ 18"
    unfolding a_def using assms by (intro binary64_small_error) (unfold powers, linarith)
  have a: "\<bar>a\<bar> \<le> 2 ^ 34" using 1 assms by (unfold powers, linarith)
  have 2: "\<bar>binary64 (a / ps) * ps - a\<bar> \<le> 1 / 2 ^ 18"
    using assms(1,2) a by (rule binary64_div_mult)
  have 3: "\<bar>m - binary64 (a / ps) * ps\<bar> \<le> 1 / 2 ^ 18"
    unfolding m_def using 1 2 assms by (intro binary64_small_error) (unfold powers, linarith)
  have 4: "\<bar>binary64 (pp + m) - (pp + m)\<bar> \<le> 1 / 2 ^ 18"
    using 1 2 3 assms by (intro binary64_small_error) (unfold powers, linarith)
  show ?thesis
    using 1 2 3 4 unfolding m_def a_def by (unfold powers, linarith)
qed

lemma round_close:
  assumes "\<bar>a - b\<bar> \<le> 1 / 2 ^ 15"
  shows "\<bar>roundToInt a - roundToInt b\<bar> \<le> 1"
proof -
  have 1: "a + 1 / 2 \<le> b + 1 / 2 + real_of_int 1" and 2: "b + 1 / 2 \<le> a + 1 / 2 + real_of_int 1"
    using assms by (unfold powers of_int_1, linarith)+
  have "\<lfloor>a + 1 / 2\<rfloor> \<le> \<lfloor>b + 1 / 2 + real_of_int 1\<rfloor>" using 1 by (rule floor_mono)
  then have 3: "\<lfloor>a + 1 / 2\<rfloor> \<le> \<lfloor>b + 1 / 2\<rfloor> + 1" unfolding floor_add_int .
  have "\<lfloor>b + 1 / 2\<rfloor> \<le> \<lfloor>a + 1 / 2 + real_of_int 1\<rfloor>" using 2 by (rule floor_mono)
  then have 4: "\<lfloor>b + 1 / 2\<rfloor> \<le> \<lfloor>a + 1 / 2\<rfloor> + 1" unfolding floor_add_int .
  show ?thesis
    unfolding roundToInt_def round_def using 3 4 by linarith
qed

lemma roundToInt_near:
  "\<bar>v - real_of_int k\<bar> \<le> 2 / 2 ^ 18 \<Longrightarrow> roundToInt v = k"
  unfolding roundToInt_def by (rule round_unique') (unfold powers, linarith)

lemma real_of_int_bound: "\<bar>i\<bar> \<le> 2 ^ 31 \<Longrightarrow> \<bar>real_of_int i\<bar> \<le> 2 ^ 31"
proof -
  assume "\<bar>i\<bar> \<le> 2 ^ 31"
  then have "real_of_int \<bar>i\<bar> \<le> real_of_int (2 ^ 31)" by (rule of_int_le_iff [THEN iffD2])
  then show ?thesis by simp
qed

lemma snd_applyPosAndSize_binary64:
  "snd (applyPosAndSize_binary64 x w xm wm pp ps) =
     (if wm = proportionalSize
        then real_of_int (roundToInt (binary64 (w * real_of_int ps)))
      else if wm = parentSizeMinusAbsolute
        then real_of_int (max 0 (ps - roundToInt w))
      else real_of_int (roundToInt w))"
  by (simp add: applyPosAndSize_binary64_def Let_def)

lemma fst_applyPosAndSize_binary64:
  "fst (applyPosAndSize_binary64 x w xm wm pp ps) =
     (let wOut = snd (applyPosAndSize_binary64 x w xm wm pp ps);
          xOut =
           (if xm AND proportionOfParentSize \<noteq> 0
              then binary64 (real_of_int pp + binary64 (x * real_of_int ps))
            else if xm AND absoluteFromParentBottomRight \<noteq> 0
              then binary64 (real_of_int (pp + ps) - x)
            else if xm AND absoluteFromParentCentre \<noteq> 0
              then binary64 (x + real_of_int (pp + int_div ps 2))
            else binary64 (x + real_of_int pp))
      in if xm AND anchorAtRightOrBottom \<noteq> 0 then binary64 (xOut - wOut)
         else if xm AND anchorAtCentre \<noteq> 0 then binary64 (xOut - binary64 (wOut / 2))
         else xOut)"
  by (simp add: applyPosAndSize_binary64_def Let_def)

lemma snd_updatePosAndSize_binary64:
  "snd (updatePosAndSize_binary64 xo wo x w xm wm pp ps) =
     (if wm = proportionalSize
        then (if ps > 0 then binary64 (w / real_of_int ps) else wo)
      else if wm = parentSizeMinusAbsolute
        then binary64 (real_of_int ps - w)
      else w)"
  by (simp add: updatePosAndSize_binary64_def Let_def)

lemma fst_updatePosAndSize_binary64:
  "fst (updatePosAndSize_binary64 xo wo x w xm wm pp ps) =
     (let x1 =
           (if xm AND anchorAtRightOrBottom \<noteq> 0 then binary64 (x + w)
            else if xm AND anchorAtCentre \<noteq> 0 then binary64 (x + binary64 (w / 2))
            else x)
      in if xm AND proportionOfParentSize \<noteq> 0
           then (if ps > 0
                   then binary64 (binary64 (x1 - real_of_int pp) / real_of_int ps)
                 else xo)
         else if xm AND absoluteFromParentBottomRight \<noteq> 0
           then binary64 (real_of_int (pp + ps) - x1)
         else if xm AND absoluteFromParentCentre \<noteq> 0
           then binary64 (x1 - real_of_int (pp + int_div ps 2))
         else binary64 (x1 - real_of_int pp))"
  by (simp add: updatePosAndSize_binary64_def Let_def)

text \<open>The size survives inverse and forward evaluation in double arithmetic.\<close>

lemma size_roundtrip_binary64:
  assumes ps: "0 < ps" "ps \<le> 2 ^ 31" and k: "\<bar>k\<bar> \<le> 2 ^ 31"
    and nonneg: "wm = parentSizeMinusAbsolute \<longrightarrow> 0 \<le> k"
  shows "snd (applyPosAndSize_binary64 x'
                (snd (updatePosAndSize_binary64 xo wo tx (real_of_int k) xm wm pp ps))
                xm' wm pp' ps) = real_of_int k"
proof -
  have S: "0 < real_of_int ps" "real_of_int ps \<le> 2 ^ 31"
    using ps real_of_int_bound [of ps] by simp_all
  have K: "\<bar>real_of_int k\<bar> \<le> 2 ^ 31" using k by (rule real_of_int_bound)
  show ?thesis
  proof (cases "wm = proportionalSize")
    case True
    have 1: "\<bar>binary64 (real_of_int k / real_of_int ps) * real_of_int ps - real_of_int k\<bar>
               \<le> 1 / 2 ^ 18"
      using S K by (intro binary64_div_mult) (unfold powers, linarith+)
    have 2: "\<bar>binary64 (binary64 (real_of_int k / real_of_int ps) * real_of_int ps)
                - binary64 (real_of_int k / real_of_int ps) * real_of_int ps\<bar> \<le> 1 / 2 ^ 18"
      using 1 K by (intro binary64_small_error) (unfold powers, linarith)
    have "roundToInt (binary64 (binary64 (real_of_int k / real_of_int ps) * real_of_int ps)) = k"
      using 1 2 by (intro roundToInt_near) (unfold powers, linarith)
    then show ?thesis
      using True ps by (simp add: snd_applyPosAndSize_binary64 snd_updatePosAndSize_binary64)
  next
    case np: False
    show ?thesis
    proof (cases "wm = parentSizeMinusAbsolute")
      case True
      have "\<bar>binary64 (real_of_int ps - real_of_int k) - (real_of_int ps - real_of_int k)\<bar>
              \<le> 1 / 2 ^ 18"
        using S K by (intro binary64_small_error) (unfold powers, linarith)
      then have "roundToInt (binary64 (real_of_int ps - real_of_int k)) = ps - k"
        by (intro roundToInt_near) (unfold powers of_int_diff, linarith)
      then show ?thesis
        using True np nonneg
        by (simp add: snd_applyPosAndSize_binary64 snd_updatePosAndSize_binary64)
    next
      case False
      then show ?thesis
        using np by (simp add: snd_applyPosAndSize_binary64 snd_updatePosAndSize_binary64)
    qed
  qed
qed

lemma int_div_2: "0 < ps \<Longrightarrow> int_div ps 2 = ps div 2"
  by (simp add: int_div_def)

text \<open>
  The position survives inverse and forward evaluation in double arithmetic up to its
  rounding errors: at most six operations, each off by at most \<open>2 powr - 18\<close>.
\<close>

lemma position_roundtrip_binary64:
  assumes ps: "0 < ps" "ps \<le> 2 ^ 31" and pp: "\<bar>pp\<bar> \<le> 2 ^ 31"
    and tx: "\<bar>tx\<bar> \<le> 2 ^ 31" and k: "\<bar>k\<bar> \<le> 2 ^ 31"
    and nonneg: "wm = parentSizeMinusAbsolute \<longrightarrow> 0 \<le> k"
  shows "\<bar>fst (applyPosAndSize_binary64
                 (fst (updatePosAndSize_binary64 xo wo tx (real_of_int k) xm wm pp ps))
                 (snd (updatePosAndSize_binary64 xo wo tx (real_of_int k) xm wm pp ps))
                 xm wm pp ps) - tx\<bar> \<le> 1 / 2 ^ 15"
proof -
  define K where "K = real_of_int k"
  define P where "P = real_of_int pp"
  define S where "S = real_of_int ps"
  define Q where "Q = real_of_int (pp + ps)"
  define M where "M = real_of_int (pp + int_div ps 2)"
  define c where "c = (if xm AND anchorAtRightOrBottom \<noteq> 0 then K
                       else if xm AND anchorAtCentre \<noteq> 0 then binary64 (K / 2) else 0)"
  define anch where "anch \<longleftrightarrow> xm AND anchorAtRightOrBottom \<noteq> 0 \<or> xm AND anchorAtCentre \<noteq> 0"
  define x1 where "x1 = (if anch then binary64 (tx + c) else tx)"
  define raw where "raw = fst (updatePosAndSize_binary64 xo wo tx K xm wm pp ps)"
  define w' where "w' = snd (updatePosAndSize_binary64 xo wo tx K xm wm pp ps)"
  define xout where "xout =
     (if xm AND proportionOfParentSize \<noteq> 0 then binary64 (P + binary64 (raw * S))
      else if xm AND absoluteFromParentBottomRight \<noteq> 0 then binary64 (Q - raw)
      else if xm AND absoluteFromParentCentre \<noteq> 0 then binary64 (raw + M)
      else binary64 (raw + P))"
  have S: "0 < S" "S \<le> 2 ^ 31"
    using ps real_of_int_bound [of ps] by (simp_all add: S_def)
  have P: "\<bar>P\<bar> \<le> 2 ^ 31" unfolding P_def using pp by (rule real_of_int_bound)
  have K: "\<bar>K\<bar> \<le> 2 ^ 31" unfolding K_def using k by (rule real_of_int_bound)
  have Q: "\<bar>Q\<bar> \<le> 2 ^ 32"
    using S P unfolding Q_def S_def P_def of_int_add powers by linarith
  have "0 \<le> ps div 2" "ps div 2 \<le> ps" using ps(1) by simp_all
  then have "0 \<le> real_of_int (ps div 2)" "real_of_int (ps div 2) \<le> S"
    unfolding S_def by simp_all
  then have M: "\<bar>M\<bar> \<le> 2 ^ 32"
    using S P unfolding M_def P_def int_div_2 [OF ps(1)] of_int_add powers by linarith
  have raw: "raw =
     (if xm AND proportionOfParentSize \<noteq> 0 then binary64 (binary64 (x1 - P) / S)
      else if xm AND absoluteFromParentBottomRight \<noteq> 0 then binary64 (Q - x1)
      else if xm AND absoluteFromParentCentre \<noteq> 0 then binary64 (x1 - M)
      else binary64 (x1 - P))"
    using ps(1)
    by (simp add: raw_def fst_updatePosAndSize_binary64 Let_def x1_def anch_def c_def
          P_def S_def Q_def M_def)
  have size: "snd (applyPosAndSize_binary64 raw w' xm wm pp ps) = K"
    unfolding w'_def K_def using ps k nonneg by (rule size_roundtrip_binary64)
  have res: "fst (applyPosAndSize_binary64 raw w' xm wm pp ps) =
               (if anch then binary64 (xout - c) else xout)"
    by (simp add: fst_applyPosAndSize_binary64 [of raw w'] size Let_def xout_def anch_def
          c_def P_def S_def Q_def M_def)
  have c: "\<bar>c\<bar> \<le> 2 ^ 31"
  proof -
    have "\<bar>binary64 (K / 2) - K / 2\<bar> \<le> 1 / 2 ^ 18"
      using K by (intro binary64_small_error) (unfold powers, linarith)
    then show ?thesis
      using K unfolding c_def powers by (auto; linarith)
  qed
  have x1: "\<bar>x1 - (tx + c)\<bar> \<le> 1 / 2 ^ 18"
  proof (cases anch)
    case True
    then show ?thesis
      unfolding x1_def using tx c by (simp only: if_True, intro binary64_small_error)
        (unfold powers, linarith)
  next
    case False
    then have "c = 0" by (simp add: c_def anch_def)
    then show ?thesis using False by (simp add: x1_def)
  qed
  have x1b: "\<bar>x1\<bar> \<le> 2 ^ 33"
    using x1 tx c unfolding powers by linarith
  have basis: "\<bar>xout - x1\<bar> \<le> 4 / 2 ^ 18"
  proof -
    consider (pc) "xm AND proportionOfParentSize \<noteq> 0"
      | (br) "xm AND proportionOfParentSize = 0" "xm AND absoluteFromParentBottomRight \<noteq> 0"
      | (ce) "xm AND proportionOfParentSize = 0" "xm AND absoluteFromParentBottomRight = 0"
             "xm AND absoluteFromParentCentre \<noteq> 0"
      | (tl) "xm AND proportionOfParentSize = 0" "xm AND absoluteFromParentBottomRight = 0"
             "xm AND absoluteFromParentCentre = 0"
      by blast
    then show ?thesis
    proof cases
      case pc
      then have "xout = binary64 (P + binary64 (binary64 (binary64 (x1 - P) / S) * S))"
        by (simp add: xout_def raw)
      then show ?thesis
        using proportion_roundtrip [OF S x1b P] by simp
    next
      case br
      then have "xout = binary64 (Q - binary64 (Q - x1))"
        by (simp add: xout_def raw)
      then show ?thesis
        using rsub_rsub_roundtrip [OF x1b Q] unfolding powers by linarith
    next
      case ce
      then have "xout = binary64 (binary64 (x1 - M) + M)"
        by (simp add: xout_def raw)
      then show ?thesis
        using sub_add_roundtrip [OF x1b M] unfolding powers by linarith
    next
      case tl
      have P': "\<bar>P\<bar> \<le> 2 ^ 32" using P unfolding powers by linarith
      from tl have "xout = binary64 (binary64 (x1 - P) + P)"
        by (simp add: xout_def raw)
      then show ?thesis
        using sub_add_roundtrip [OF x1b P'] unfolding powers by linarith
    qed
  qed
  have final: "\<bar>(if anch then binary64 (xout - c) else xout) - tx\<bar> \<le> 1 / 2 ^ 15"
  proof (cases anch)
    case True
    have "\<bar>binary64 (xout - c) - (xout - c)\<bar> \<le> 1 / 2 ^ 18"
      using basis x1b c by (intro binary64_small_error) (unfold powers, linarith)
    then show ?thesis
      using True basis x1 unfolding powers by (simp only: if_True; linarith)
  next
    case False
    then have "c = 0" by (simp add: c_def anch_def)
    then show ?thesis
      using False basis x1 unfolding powers by (simp only: if_False; linarith)
  qed
  show ?thesis
    using final unfolding res [symmetric] raw_def w'_def K_def .
qed

lemma applyPosAndSize_binary64_size_is_int:
  "real_of_int (roundToInt (snd (applyPosAndSize_binary64 x w xm wm pp ps))) =
     snd (applyPosAndSize_binary64 x w xm wm pp ps)"
  by (simp add: snd_applyPosAndSize_binary64)

lemma setModes_axis_binary64:
  assumes ps: "0 < ps" "ps \<le> 2 ^ 31" and pp: "\<bar>pp\<bar> \<le> 2 ^ 31"
    and tx: "\<bar>fst (applyPosAndSize_binary64 x w xm wm pp ps)\<bar> \<le> 2 ^ 31"
    and tw: "\<bar>roundToInt (snd (applyPosAndSize_binary64 x w xm wm pp ps))\<bar> \<le> 2 ^ 31"
    and nonneg: "wm' = parentSizeMinusAbsolute \<longrightarrow>
                   0 \<le> roundToInt (snd (applyPosAndSize_binary64 x w xm wm pp ps))"
  shows "snd (applyPosAndSize_binary64
                (fst (updatePosAndSize_binary64 x w
                        (fst (applyPosAndSize_binary64 x w xm wm pp ps))
                        (snd (applyPosAndSize_binary64 x w xm wm pp ps)) xm' wm' pp ps))
                (snd (updatePosAndSize_binary64 x w
                        (fst (applyPosAndSize_binary64 x w xm wm pp ps))
                        (snd (applyPosAndSize_binary64 x w xm wm pp ps)) xm' wm' pp ps))
                xm' wm' pp ps)
         = snd (applyPosAndSize_binary64 x w xm wm pp ps)"
    and "\<bar>fst (applyPosAndSize_binary64
                (fst (updatePosAndSize_binary64 x w
                        (fst (applyPosAndSize_binary64 x w xm wm pp ps))
                        (snd (applyPosAndSize_binary64 x w xm wm pp ps)) xm' wm' pp ps))
                (snd (updatePosAndSize_binary64 x w
                        (fst (applyPosAndSize_binary64 x w xm wm pp ps))
                        (snd (applyPosAndSize_binary64 x w xm wm pp ps)) xm' wm' pp ps))
                xm' wm' pp ps)
          - fst (applyPosAndSize_binary64 x w xm wm pp ps)\<bar> \<le> 1 / 2 ^ 15"
proof -
  define k where "k = roundToInt (snd (applyPosAndSize_binary64 x w xm wm pp ps))"
  have K: "snd (applyPosAndSize_binary64 x w xm wm pp ps) = real_of_int k"
    unfolding k_def by (rule applyPosAndSize_binary64_size_is_int [symmetric])
  have k: "\<bar>k\<bar> \<le> 2 ^ 31" and n: "wm' = parentSizeMinusAbsolute \<longrightarrow> 0 \<le> k"
    using tw nonneg by (simp_all add: k_def)
  show "snd (applyPosAndSize_binary64
                (fst (updatePosAndSize_binary64 x w
                        (fst (applyPosAndSize_binary64 x w xm wm pp ps))
                        (snd (applyPosAndSize_binary64 x w xm wm pp ps)) xm' wm' pp ps))
                (snd (updatePosAndSize_binary64 x w
                        (fst (applyPosAndSize_binary64 x w xm wm pp ps))
                        (snd (applyPosAndSize_binary64 x w xm wm pp ps)) xm' wm' pp ps))
                xm' wm' pp ps)
         = snd (applyPosAndSize_binary64 x w xm wm pp ps)"
    unfolding K using ps k n by (rule size_roundtrip_binary64)
  show "\<bar>fst (applyPosAndSize_binary64
                (fst (updatePosAndSize_binary64 x w
                        (fst (applyPosAndSize_binary64 x w xm wm pp ps))
                        (snd (applyPosAndSize_binary64 x w xm wm pp ps)) xm' wm' pp ps))
                (snd (updatePosAndSize_binary64 x w
                        (fst (applyPosAndSize_binary64 x w xm wm pp ps))
                        (snd (applyPosAndSize_binary64 x w xm wm pp ps)) xm' wm' pp ps))
                xm' wm' pp ps)
          - fst (applyPosAndSize_binary64 x w xm wm pp ps)\<bar> \<le> 1 / 2 ^ 15"
    unfolding K using ps pp tx k n by (rule position_roundtrip_binary64)
qed

lemma getRectangle_binary64_fields:
  "getX (getRectangle_binary64 p R) =
     roundToInt (fst (applyPosAndSize_binary64 (pr_x p) (pr_w p) (xMode p) (wMode p)
                        (getX R) (getWidth R)))"
  "getWidth (getRectangle_binary64 p R) =
     roundToInt (snd (applyPosAndSize_binary64 (pr_x p) (pr_w p) (xMode p) (wMode p)
                        (getX R) (getWidth R)))"
  "getY (getRectangle_binary64 p R) =
     roundToInt (fst (applyPosAndSize_binary64 (pr_y p) (pr_h p) (yMode p) (hMode p)
                        (getY R) (getHeight R)))"
  "getHeight (getRectangle_binary64 p R) =
     roundToInt (snd (applyPosAndSize_binary64 (pr_y p) (pr_h p) (yMode p) (hMode p)
                        (getY R) (getHeight R)))"
  by (simp_all add: getRectangle_binary64_def Let_def split_beta)

lemma getRectangleDouble_binary64_fields:
  "fst (getRectangleDouble_binary64 p R) =
     fst (applyPosAndSize_binary64 (pr_x p) (pr_w p) (xMode p) (wMode p) (getX R) (getWidth R))"
  "fst (snd (getRectangleDouble_binary64 p R)) =
     fst (applyPosAndSize_binary64 (pr_y p) (pr_h p) (yMode p) (hMode p) (getY R) (getHeight R))"
  by (simp_all add: getRectangleDouble_binary64_def Let_def split_beta)

text \<open>The two axes of \<open>setModes\<close>, each changed or left alone.\<close>

lemma setModes_x_axis:
  "applyPosAndSize_binary64
     (pr_x (setModes p xAnchor xModeArg yAnchor yModeArg widthMode heightMode R))
     (pr_w (setModes p xAnchor xModeArg yAnchor yModeArg widthMode heightMode R))
     (xMode (setModes p xAnchor xModeArg yAnchor yModeArg widthMode heightMode R))
     (wMode (setModes p xAnchor xModeArg yAnchor yModeArg widthMode heightMode R))
     (getX R) (getWidth R) =
   (if xMode p \<noteq> (xAnchor OR xModeArg) \<or> wMode p \<noteq> widthMode
      then applyPosAndSize_binary64
             (fst (updatePosAndSize_binary64 (pr_x p) (pr_w p)
                (fst (applyPosAndSize_binary64 (pr_x p) (pr_w p) (xMode p) (wMode p)
                        (getX R) (getWidth R)))
                (snd (applyPosAndSize_binary64 (pr_x p) (pr_w p) (xMode p) (wMode p)
                        (getX R) (getWidth R)))
                (xAnchor OR xModeArg) widthMode (getX R) (getWidth R)))
             (snd (updatePosAndSize_binary64 (pr_x p) (pr_w p)
                (fst (applyPosAndSize_binary64 (pr_x p) (pr_w p) (xMode p) (wMode p)
                        (getX R) (getWidth R)))
                (snd (applyPosAndSize_binary64 (pr_x p) (pr_w p) (xMode p) (wMode p)
                        (getX R) (getWidth R)))
                (xAnchor OR xModeArg) widthMode (getX R) (getWidth R)))
             (xAnchor OR xModeArg) widthMode (getX R) (getWidth R)
    else applyPosAndSize_binary64 (pr_x p) (pr_w p) (xMode p) (wMode p) (getX R) (getWidth R))"
  by (cases "xMode p \<noteq> (xAnchor OR xModeArg) \<or> wMode p \<noteq> widthMode";
      cases "yMode p \<noteq> (yAnchor OR yModeArg) \<or> hMode p \<noteq> heightMode")
     (simp_all add: setModes_def Let_def split_beta)

lemma setModes_y_axis:
  "applyPosAndSize_binary64
     (pr_y (setModes p xAnchor xModeArg yAnchor yModeArg widthMode heightMode R))
     (pr_h (setModes p xAnchor xModeArg yAnchor yModeArg widthMode heightMode R))
     (yMode (setModes p xAnchor xModeArg yAnchor yModeArg widthMode heightMode R))
     (hMode (setModes p xAnchor xModeArg yAnchor yModeArg widthMode heightMode R))
     (getY R) (getHeight R) =
   (if yMode p \<noteq> (yAnchor OR yModeArg) \<or> hMode p \<noteq> heightMode
      then applyPosAndSize_binary64
             (fst (updatePosAndSize_binary64 (pr_y p) (pr_h p)
                (fst (applyPosAndSize_binary64 (pr_y p) (pr_h p) (yMode p) (hMode p)
                        (getY R) (getHeight R)))
                (snd (applyPosAndSize_binary64 (pr_y p) (pr_h p) (yMode p) (hMode p)
                        (getY R) (getHeight R)))
                (yAnchor OR yModeArg) heightMode (getY R) (getHeight R)))
             (snd (updatePosAndSize_binary64 (pr_y p) (pr_h p)
                (fst (applyPosAndSize_binary64 (pr_y p) (pr_h p) (yMode p) (hMode p)
                        (getY R) (getHeight R)))
                (snd (applyPosAndSize_binary64 (pr_y p) (pr_h p) (yMode p) (hMode p)
                        (getY R) (getHeight R)))
                (yAnchor OR yModeArg) heightMode (getY R) (getHeight R)))
             (yAnchor OR yModeArg) heightMode (getY R) (getHeight R)
    else applyPosAndSize_binary64 (pr_y p) (pr_h p) (yMode p) (hMode p) (getY R) (getHeight R))"
  by (cases "xMode p \<noteq> (xAnchor OR xModeArg) \<or> wMode p \<noteq> widthMode";
      cases "yMode p \<noteq> (yAnchor OR yModeArg) \<or> hMode p \<noteq> heightMode")
     (simp_all add: setModes_def Let_def split_beta)

lemma setModes_modes:
  "xMode (setModes p xAnchor xModeArg yAnchor yModeArg widthMode heightMode R)
     = xAnchor OR xModeArg"
  "yMode (setModes p xAnchor xModeArg yAnchor yModeArg widthMode heightMode R)
     = yAnchor OR yModeArg"
  "wMode (setModes p xAnchor xModeArg yAnchor yModeArg widthMode heightMode R) = widthMode"
  "hMode (setModes p xAnchor xModeArg yAnchor yModeArg widthMode heightMode R) = heightMode"
  by (auto simp add: setModes_def Let_def split_beta)

lemma setModes_axis_result:
  assumes "0 < getWidth R" and "getWidth R \<le> 2 ^ 31" and "\<bar>getX R\<bar> \<le> 2 ^ 31"
    and "\<bar>fst (getRectangleDouble_binary64 p R)\<bar> \<le> 2 ^ 31"
    and "\<bar>getWidth (getRectangle_binary64 p R)\<bar> \<le> 2 ^ 31"
    and "widthMode = parentSizeMinusAbsolute \<longrightarrow> 0 \<le> getWidth (getRectangle_binary64 p R)"
  shows "snd (applyPosAndSize_binary64
     (pr_x (setModes p xAnchor xModeArg yAnchor yModeArg widthMode heightMode R))
     (pr_w (setModes p xAnchor xModeArg yAnchor yModeArg widthMode heightMode R))
     (xMode (setModes p xAnchor xModeArg yAnchor yModeArg widthMode heightMode R))
     (wMode (setModes p xAnchor xModeArg yAnchor yModeArg widthMode heightMode R))
     (getX R) (getWidth R))
     = snd (applyPosAndSize_binary64 (pr_x p) (pr_w p) (xMode p) (wMode p) (getX R) (getWidth R))"
   and "\<bar>fst (applyPosAndSize_binary64
     (pr_x (setModes p xAnchor xModeArg yAnchor yModeArg widthMode heightMode R))
     (pr_w (setModes p xAnchor xModeArg yAnchor yModeArg widthMode heightMode R))
     (xMode (setModes p xAnchor xModeArg yAnchor yModeArg widthMode heightMode R))
     (wMode (setModes p xAnchor xModeArg yAnchor yModeArg widthMode heightMode R))
     (getX R) (getWidth R))
     - fst (applyPosAndSize_binary64 (pr_x p) (pr_w p) (xMode p) (wMode p) (getX R) (getWidth R))\<bar>
       \<le> 1 / 2 ^ 15"
  unfolding setModes_x_axis
  using setModes_axis_binary64 [OF assms(1,2,3)
          assms(4) [unfolded getRectangleDouble_binary64_fields]
          assms(5) [unfolded getRectangle_binary64_fields]
          assms(6) [unfolded getRectangle_binary64_fields], of "xAnchor OR xModeArg"]
  by simp_all

lemma setModes_axis_result_y:
  assumes "0 < getHeight R" and "getHeight R \<le> 2 ^ 31" and "\<bar>getY R\<bar> \<le> 2 ^ 31"
    and "\<bar>fst (snd (getRectangleDouble_binary64 p R))\<bar> \<le> 2 ^ 31"
    and "\<bar>getHeight (getRectangle_binary64 p R)\<bar> \<le> 2 ^ 31"
    and "heightMode = parentSizeMinusAbsolute \<longrightarrow> 0 \<le> getHeight (getRectangle_binary64 p R)"
  shows "snd (applyPosAndSize_binary64
     (pr_y (setModes p xAnchor xModeArg yAnchor yModeArg widthMode heightMode R))
     (pr_h (setModes p xAnchor xModeArg yAnchor yModeArg widthMode heightMode R))
     (yMode (setModes p xAnchor xModeArg yAnchor yModeArg widthMode heightMode R))
     (hMode (setModes p xAnchor xModeArg yAnchor yModeArg widthMode heightMode R))
     (getY R) (getHeight R))
     = snd (applyPosAndSize_binary64 (pr_y p) (pr_h p) (yMode p) (hMode p) (getY R) (getHeight R))"
   and "\<bar>fst (applyPosAndSize_binary64
     (pr_y (setModes p xAnchor xModeArg yAnchor yModeArg widthMode heightMode R))
     (pr_h (setModes p xAnchor xModeArg yAnchor yModeArg widthMode heightMode R))
     (yMode (setModes p xAnchor xModeArg yAnchor yModeArg widthMode heightMode R))
     (hMode (setModes p xAnchor xModeArg yAnchor yModeArg widthMode heightMode R))
     (getY R) (getHeight R))
     - fst (applyPosAndSize_binary64 (pr_y p) (pr_h p) (yMode p) (hMode p) (getY R) (getHeight R))\<bar>
       \<le> 1 / 2 ^ 15"
  unfolding setModes_y_axis
  using setModes_axis_binary64 [OF assms(1,2,3)
          assms(4) [unfolded getRectangleDouble_binary64_fields]
          assms(5) [unfolded getRectangle_binary64_fields]
          assms(6) [unfolded getRectangle_binary64_fields], of "yAnchor OR yModeArg"]
  by simp_all

lemma binary64_integers:
  "binary64 10 = 10" "binary64 20 = 20" "binary64 40 = 40" "binary64 60 = 60"
  "binary64 105 = 105" "binary64 160 = 160" "binary64 170 = 170"
  using binary64_at [of 3 10] binary64_at [of 4 20] binary64_at [of 5 40] binary64_at [of 5 60]
    binary64_at [of 6 105] binary64_at [of 7 160] binary64_at [of 7 170]
  by (simp_all add: powr_neg_numeral)

text \<open>
  C3, as stated, fails. In double arithmetic the position is not preserved exactly: the
  rectangle with raw x 15 anchored at its centre and absolute width 3 evaluates against
  the reference of width 11 to x = 14 (from 13.5); after \<open>setModes\<close> to the proportional
  basis the raw x is the double nearest to 15 / 11, which evaluates to
  13.499999999999998 and so to x = 13. And a size is not preserved when the new size
  mode is parent-minus and the old forward size is negative: a raw absolute width of -5
  evaluates to width -5, and after \<open>setModes\<close> to parent-minus against reference width
  100 the raw width is 105, which evaluates to 0.
\<close>

theorem setModes_preserves_getRectangle_counterexample:
  "getRectangle_binary64
     \<lparr> pr_x = 15, pr_y = 0, pr_w = 3, pr_h = 10,
       xMode = anchorAtCentre OR absoluteFromParentTopLeft,
       yMode = anchorAtLeftOrTop OR absoluteFromParentTopLeft,
       wMode = absoluteSize, hMode = absoluteSize \<rparr>
     \<lparr> getX = 0, getY = 0, getWidth = 11, getHeight = 100 \<rparr>
    = \<lparr> getX = 14, getY = 0, getWidth = 3, getHeight = 10 \<rparr>
   \<and> getRectangle_binary64
     (setModes
        \<lparr> pr_x = 15, pr_y = 0, pr_w = 3, pr_h = 10,
          xMode = anchorAtCentre OR absoluteFromParentTopLeft,
          yMode = anchorAtLeftOrTop OR absoluteFromParentTopLeft,
          wMode = absoluteSize, hMode = absoluteSize \<rparr>
        anchorAtCentre proportionOfParentSize
        anchorAtLeftOrTop absoluteFromParentTopLeft
        absoluteSize absoluteSize
        \<lparr> getX = 0, getY = 0, getWidth = 11, getHeight = 100 \<rparr>)
     \<lparr> getX = 0, getY = 0, getWidth = 11, getHeight = 100 \<rparr>
    = \<lparr> getX = 13, getY = 0, getWidth = 3, getHeight = 10 \<rparr>
   \<and> getRectangle_binary64
     \<lparr> pr_x = 0, pr_y = 0, pr_w = - 5, pr_h = 10,
       xMode = anchorAtLeftOrTop OR absoluteFromParentTopLeft,
       yMode = anchorAtLeftOrTop OR absoluteFromParentTopLeft,
       wMode = absoluteSize, hMode = absoluteSize \<rparr>
     \<lparr> getX = 0, getY = 0, getWidth = 100, getHeight = 100 \<rparr>
    = \<lparr> getX = 0, getY = 0, getWidth = - 5, getHeight = 10 \<rparr>
   \<and> getRectangle_binary64
     (setModes
        \<lparr> pr_x = 0, pr_y = 0, pr_w = - 5, pr_h = 10,
          xMode = anchorAtLeftOrTop OR absoluteFromParentTopLeft,
          yMode = anchorAtLeftOrTop OR absoluteFromParentTopLeft,
          wMode = absoluteSize, hMode = absoluteSize \<rparr>
        anchorAtLeftOrTop absoluteFromParentTopLeft
        anchorAtLeftOrTop absoluteFromParentTopLeft
        parentSizeMinusAbsolute absoluteSize
        \<lparr> getX = 0, getY = 0, getWidth = 100, getHeight = 100 \<rparr>)
     \<lparr> getX = 0, getY = 0, getWidth = 100, getHeight = 100 \<rparr>
    = \<lparr> getX = 0, getY = 0, getWidth = 0, getHeight = 10 \<rparr>"
  by (simp add: getRectangle_binary64_def setModes_def applyPosAndSize_binary64_def
        updatePosAndSize_binary64_def roundToInt_def round_def mode_defs binary64_values
        binary64_integers)

text \<open>
  C3, amended. Let the reference rectangle have strictly positive width and height, let
  the reference and the forward-evaluated rectangle lie within the \<open>int\<close> range, and
  let the forward-evaluated width (height) be not negative when the new width (height)
  mode is parent-minus. Then \<open>setModes\<close> with any new anchors, position bases and size
  modes stores the requested mode bytes and leaves the forward-evaluated width and
  height unchanged; the unrounded forward x and y change by at most \<open>2 powr - 15\<close>
  (the rounding of the double operations), so the x and y of \<open>getRectangle\<close> change by
  at most one.
\<close>

theorem setModes_preserves_getRectangle:
  assumes "0 < getWidth R" and "getWidth R \<le> 2 ^ 31" and "\<bar>getX R\<bar> \<le> 2 ^ 31"
    and "0 < getHeight R" and "getHeight R \<le> 2 ^ 31" and "\<bar>getY R\<bar> \<le> 2 ^ 31"
    and "\<bar>fst (getRectangleDouble_binary64 p R)\<bar> \<le> 2 ^ 31"
    and "\<bar>fst (snd (getRectangleDouble_binary64 p R))\<bar> \<le> 2 ^ 31"
    and "\<bar>getWidth (getRectangle_binary64 p R)\<bar> \<le> 2 ^ 31"
    and "\<bar>getHeight (getRectangle_binary64 p R)\<bar> \<le> 2 ^ 31"
    and "widthMode = parentSizeMinusAbsolute \<longrightarrow> 0 \<le> getWidth (getRectangle_binary64 p R)"
    and "heightMode = parentSizeMinusAbsolute \<longrightarrow> 0 \<le> getHeight (getRectangle_binary64 p R)"
  shows "xMode (setModes p xAnchor xModeArg yAnchor yModeArg widthMode heightMode R)
           = xAnchor OR xModeArg
       \<and> yMode (setModes p xAnchor xModeArg yAnchor yModeArg widthMode heightMode R)
           = yAnchor OR yModeArg
       \<and> wMode (setModes p xAnchor xModeArg yAnchor yModeArg widthMode heightMode R) = widthMode
       \<and> hMode (setModes p xAnchor xModeArg yAnchor yModeArg widthMode heightMode R) = heightMode
       \<and> getWidth (getRectangle_binary64
             (setModes p xAnchor xModeArg yAnchor yModeArg widthMode heightMode R) R)
           = getWidth (getRectangle_binary64 p R)
       \<and> getHeight (getRectangle_binary64
             (setModes p xAnchor xModeArg yAnchor yModeArg widthMode heightMode R) R)
           = getHeight (getRectangle_binary64 p R)
       \<and> \<bar>fst (getRectangleDouble_binary64
                (setModes p xAnchor xModeArg yAnchor yModeArg widthMode heightMode R) R)
          - fst (getRectangleDouble_binary64 p R)\<bar> \<le> 1 / 2 ^ 15
       \<and> \<bar>fst (snd (getRectangleDouble_binary64
                (setModes p xAnchor xModeArg yAnchor yModeArg widthMode heightMode R) R))
          - fst (snd (getRectangleDouble_binary64 p R))\<bar> \<le> 1 / 2 ^ 15
       \<and> \<bar>getX (getRectangle_binary64
                (setModes p xAnchor xModeArg yAnchor yModeArg widthMode heightMode R) R)
          - getX (getRectangle_binary64 p R)\<bar> \<le> 1
       \<and> \<bar>getY (getRectangle_binary64
                (setModes p xAnchor xModeArg yAnchor yModeArg widthMode heightMode R) R)
          - getY (getRectangle_binary64 p R)\<bar> \<le> 1"
proof -
  note x = setModes_axis_result [OF assms(1,2,3,7,9,11),
             of xAnchor xModeArg yAnchor yModeArg heightMode]
  note y = setModes_axis_result_y [OF assms(4,5,6,8,10,12),
             of xAnchor xModeArg yAnchor yModeArg widthMode]
  show ?thesis
    unfolding getRectangle_binary64_fields getRectangleDouble_binary64_fields
    using x y round_close [OF x(2)] round_close [OF y(2)]
    by (simp add: setModes_modes)
qed

theorem setModes_preserves_getRectangle_witness:
  "getRectangle_binary64
     \<lparr> pr_x = 10, pr_y = 20, pr_w = 30, pr_h = 40,
       xMode = anchorAtLeftOrTop OR absoluteFromParentTopLeft,
       yMode = anchorAtLeftOrTop OR absoluteFromParentTopLeft,
       wMode = absoluteSize, hMode = absoluteSize \<rparr>
     \<lparr> getX = 0, getY = 0, getWidth = 200, getHeight = 100 \<rparr>
    = \<lparr> getX = 10, getY = 20, getWidth = 30, getHeight = 40 \<rparr>
   \<and> setModes
     \<lparr> pr_x = 10, pr_y = 20, pr_w = 30, pr_h = 40,
       xMode = anchorAtLeftOrTop OR absoluteFromParentTopLeft,
       yMode = anchorAtLeftOrTop OR absoluteFromParentTopLeft,
       wMode = absoluteSize, hMode = absoluteSize \<rparr>
     anchorAtRightOrBottom absoluteFromParentBottomRight
     anchorAtRightOrBottom absoluteFromParentTopLeft
     parentSizeMinusAbsolute absoluteSize
     \<lparr> getX = 0, getY = 0, getWidth = 200, getHeight = 100 \<rparr>
    = \<lparr> pr_x = 160, pr_y = 60, pr_w = 170, pr_h = 40,
        xMode = anchorAtRightOrBottom OR absoluteFromParentBottomRight,
        yMode = anchorAtRightOrBottom OR absoluteFromParentTopLeft,
        wMode = parentSizeMinusAbsolute, hMode = absoluteSize \<rparr>
   \<and> getRectangle_binary64
     \<lparr> pr_x = 160, pr_y = 60, pr_w = 170, pr_h = 40,
        xMode = anchorAtRightOrBottom OR absoluteFromParentBottomRight,
        yMode = anchorAtRightOrBottom OR absoluteFromParentTopLeft,
        wMode = parentSizeMinusAbsolute, hMode = absoluteSize \<rparr>
     \<lparr> getX = 0, getY = 0, getWidth = 200, getHeight = 100 \<rparr>
    = \<lparr> getX = 10, getY = 20, getWidth = 30, getHeight = 40 \<rparr>"
proof -
  have g: "getRectangle_binary64
     \<lparr> pr_x = 10, pr_y = 20, pr_w = 30, pr_h = 40,
       xMode = anchorAtLeftOrTop OR absoluteFromParentTopLeft,
       yMode = anchorAtLeftOrTop OR absoluteFromParentTopLeft,
       wMode = absoluteSize, hMode = absoluteSize \<rparr>
     \<lparr> getX = 0, getY = 0, getWidth = 200, getHeight = 100 \<rparr>
    = \<lparr> getX = 10, getY = 20, getWidth = 30, getHeight = 40 \<rparr>"
    by (simp add: getRectangle_binary64_def applyPosAndSize_binary64_def roundToInt_def
          mode_defs binary64_integers)
  have d: "getRectangleDouble_binary64
     \<lparr> pr_x = 10, pr_y = 20, pr_w = 30, pr_h = 40,
       xMode = anchorAtLeftOrTop OR absoluteFromParentTopLeft,
       yMode = anchorAtLeftOrTop OR absoluteFromParentTopLeft,
       wMode = absoluteSize, hMode = absoluteSize \<rparr>
     \<lparr> getX = 0, getY = 0, getWidth = 200, getHeight = 100 \<rparr>
    = (10, 20, 30, 40)"
    by (simp add: getRectangleDouble_binary64_def applyPosAndSize_binary64_def roundToInt_def
          mode_defs binary64_integers)
  have s: "setModes
     \<lparr> pr_x = 10, pr_y = 20, pr_w = 30, pr_h = 40,
       xMode = anchorAtLeftOrTop OR absoluteFromParentTopLeft,
       yMode = anchorAtLeftOrTop OR absoluteFromParentTopLeft,
       wMode = absoluteSize, hMode = absoluteSize \<rparr>
     anchorAtRightOrBottom absoluteFromParentBottomRight
     anchorAtRightOrBottom absoluteFromParentTopLeft
     parentSizeMinusAbsolute absoluteSize
     \<lparr> getX = 0, getY = 0, getWidth = 200, getHeight = 100 \<rparr>
    = \<lparr> pr_x = 160, pr_y = 60, pr_w = 170, pr_h = 40,
        xMode = anchorAtRightOrBottom OR absoluteFromParentBottomRight,
        yMode = anchorAtRightOrBottom OR absoluteFromParentTopLeft,
        wMode = parentSizeMinusAbsolute, hMode = absoluteSize \<rparr>"
    by (simp add: setModes_def applyPosAndSize_binary64_def updatePosAndSize_binary64_def
          roundToInt_def mode_defs binary64_integers)
  have h: "\<bar>getWidth (getRectangle_binary64
               \<lparr> pr_x = 10, pr_y = 20, pr_w = 30, pr_h = 40,
                 xMode = anchorAtLeftOrTop OR absoluteFromParentTopLeft,
                 yMode = anchorAtLeftOrTop OR absoluteFromParentTopLeft,
                 wMode = absoluteSize, hMode = absoluteSize \<rparr>
               \<lparr> getX = 0, getY = 0, getWidth = 200, getHeight = 100 \<rparr>)\<bar> \<le> 2 ^ 31"
    "\<bar>getHeight (getRectangle_binary64
               \<lparr> pr_x = 10, pr_y = 20, pr_w = 30, pr_h = 40,
                 xMode = anchorAtLeftOrTop OR absoluteFromParentTopLeft,
                 yMode = anchorAtLeftOrTop OR absoluteFromParentTopLeft,
                 wMode = absoluteSize, hMode = absoluteSize \<rparr>
               \<lparr> getX = 0, getY = 0, getWidth = 200, getHeight = 100 \<rparr>)\<bar> \<le> 2 ^ 31"
    unfolding g by simp_all
  have i: "\<bar>fst (getRectangleDouble_binary64
               \<lparr> pr_x = 10, pr_y = 20, pr_w = 30, pr_h = 40,
                 xMode = anchorAtLeftOrTop OR absoluteFromParentTopLeft,
                 yMode = anchorAtLeftOrTop OR absoluteFromParentTopLeft,
                 wMode = absoluteSize, hMode = absoluteSize \<rparr>
               \<lparr> getX = 0, getY = 0, getWidth = 200, getHeight = 100 \<rparr>)\<bar> \<le> 2 ^ 31"
    "\<bar>fst (snd (getRectangleDouble_binary64
               \<lparr> pr_x = 10, pr_y = 20, pr_w = 30, pr_h = 40,
                 xMode = anchorAtLeftOrTop OR absoluteFromParentTopLeft,
                 yMode = anchorAtLeftOrTop OR absoluteFromParentTopLeft,
                 wMode = absoluteSize, hMode = absoluteSize \<rparr>
               \<lparr> getX = 0, getY = 0, getWidth = 200, getHeight = 100 \<rparr>))\<bar> \<le> 2 ^ 31"
    unfolding d by simp_all
  have n: "0 \<le> getWidth (getRectangle_binary64
               \<lparr> pr_x = 10, pr_y = 20, pr_w = 30, pr_h = 40,
                 xMode = anchorAtLeftOrTop OR absoluteFromParentTopLeft,
                 yMode = anchorAtLeftOrTop OR absoluteFromParentTopLeft,
                 wMode = absoluteSize, hMode = absoluteSize \<rparr>
               \<lparr> getX = 0, getY = 0, getWidth = 200, getHeight = 100 \<rparr>)"
    unfolding g by simp
  have m: "absoluteSize \<noteq> parentSizeMinusAbsolute" by (simp add: mode_defs)
  have "getWidth (getRectangle_binary64
          (setModes
             \<lparr> pr_x = 10, pr_y = 20, pr_w = 30, pr_h = 40,
               xMode = anchorAtLeftOrTop OR absoluteFromParentTopLeft,
               yMode = anchorAtLeftOrTop OR absoluteFromParentTopLeft,
               wMode = absoluteSize, hMode = absoluteSize \<rparr>
             anchorAtRightOrBottom absoluteFromParentBottomRight
             anchorAtRightOrBottom absoluteFromParentTopLeft
             parentSizeMinusAbsolute absoluteSize
             \<lparr> getX = 0, getY = 0, getWidth = 200, getHeight = 100 \<rparr>)
          \<lparr> getX = 0, getY = 0, getWidth = 200, getHeight = 100 \<rparr>)
        = getWidth (getRectangle_binary64
             \<lparr> pr_x = 10, pr_y = 20, pr_w = 30, pr_h = 40,
               xMode = anchorAtLeftOrTop OR absoluteFromParentTopLeft,
               yMode = anchorAtLeftOrTop OR absoluteFromParentTopLeft,
               wMode = absoluteSize, hMode = absoluteSize \<rparr>
             \<lparr> getX = 0, getY = 0, getWidth = 200, getHeight = 100 \<rparr>)"
    using setModes_preserves_getRectangle
      [of "\<lparr> getX = 0, getY = 0, getWidth = 200, getHeight = 100 \<rparr>"
          "\<lparr> pr_x = 10, pr_y = 20, pr_w = 30, pr_h = 40,
             xMode = anchorAtLeftOrTop OR absoluteFromParentTopLeft,
             yMode = anchorAtLeftOrTop OR absoluteFromParentTopLeft,
             wMode = absoluteSize, hMode = absoluteSize \<rparr>"
          parentSizeMinusAbsolute absoluteSize
          anchorAtRightOrBottom absoluteFromParentBottomRight
          anchorAtRightOrBottom absoluteFromParentTopLeft, OF _ _ _ _ _ _ i h]
      n m
    by simp
  moreover have "getRectangle_binary64
     \<lparr> pr_x = 160, pr_y = 60, pr_w = 170, pr_h = 40,
        xMode = anchorAtRightOrBottom OR absoluteFromParentBottomRight,
        yMode = anchorAtRightOrBottom OR absoluteFromParentTopLeft,
        wMode = parentSizeMinusAbsolute, hMode = absoluteSize \<rparr>
     \<lparr> getX = 0, getY = 0, getWidth = 200, getHeight = 100 \<rparr>
    = \<lparr> getX = 10, getY = 20, getWidth = 30, getHeight = 40 \<rparr>"
    by (simp add: getRectangle_binary64_def applyPosAndSize_binary64_def roundToInt_def
          mode_defs binary64_integers)
  ultimately show ?thesis
    using g s by simp
qed

lemmas text_defs = addTokens_def StringArray_at_def containsChar_def removeCharacters_def
  upToFirstOccurrenceOf_def isDigit_def digitValue_def isWhitespace_def isBreakCharacter_def
  readDoubleValue_def startsWithNumber_def getDoubleValue_def decodePosString_def
  decodeSizeString_def PositionedRectangle_of_String_def

section \<open>Parsing the text form\<close>

text \<open>
  C9. The rectangle parsed from "20% 30 150 50%", evaluated against the reference
  (0, 0, 200, 100), is x = 40, y = 30, w = 150, h = 50; the one parsed from
  "10 10 20M 20M" against the same reference is x = 10, y = 10, w = 180, h = 80.
\<close>

theorem grammar_examples:
  "map_option
     (\<lambda>p. getRectangle p \<lparr> getX = 0, getY = 0, getWidth = 200, getHeight = 100 \<rparr>)
     (PositionedRectangle_of_String ''20% 30 150 50%'')
     = Some \<lparr> getX = 40, getY = 30, getWidth = 150, getHeight = 50 \<rparr>
   \<and> map_option
     (\<lambda>p. getRectangle p \<lparr> getX = 0, getY = 0, getWidth = 200, getHeight = 100 \<rparr>)
     (PositionedRectangle_of_String ''10 10 20M 20M'')
     = Some \<lparr> getX = 10, getY = 10, getWidth = 180, getHeight = 80 \<rparr>"
proof -
  have p1: "PositionedRectangle_of_String ''20% 30 150 50%'' =
    Some \<lparr> pr_x = 1 / 5, pr_y = 30, pr_w = 150, pr_h = 1 / 2,
      xMode = anchorAtLeftOrTop OR proportionOfParentSize,
      yMode = anchorAtLeftOrTop OR absoluteFromParentTopLeft,
      wMode = absoluteSize, hMode = proportionalSize \<rparr>"
    by (simp add: text_defs)
  have p2: "PositionedRectangle_of_String ''10 10 20M 20M'' =
    Some \<lparr> pr_x = 10, pr_y = 10, pr_w = 20, pr_h = 20,
      xMode = anchorAtLeftOrTop OR absoluteFromParentTopLeft,
      yMode = anchorAtLeftOrTop OR absoluteFromParentTopLeft,
      wMode = parentSizeMinusAbsolute, hMode = parentSizeMinusAbsolute \<rparr>"
    by (simp add: text_defs)
  show ?thesis
    unfolding p1 p2
    by (simp add: getRectangle_def applyPosAndSize_def roundToInt_def mode_defs)
qed

section \<open>Malformed text\<close>









section \<open>Tokens of the text form\<close>

lemma digitChar_digit: "n < 10 \<Longrightarrow> isDigit (digitChar n)"
  by (simp add: isDigit_def digitChar_def)

lemma digitValue_digitChar: "n < 10 \<Longrightarrow> digitValue (digitChar n) = n"
  by (simp add: digitValue_def digitChar_def)

lemma natDigits_digits: "\<forall>c\<in>set (natDigits n). isDigit c"
proof (induction n rule: natDigits.induct)
  case (1 n)
  show ?case
  proof (cases "n < 10")
    case True
    then show ?thesis by (simp add: natDigits.simps [of n] digitChar_digit)
  next
    case False
    then show ?thesis using 1 by (simp add: natDigits.simps [of n] digitChar_digit)
  qed
qed

lemma natDigits_not_Nil: "natDigits n \<noteq> []"
  by (simp add: natDigits.simps [of n])

lemma fractionDigits_digits: "n < 10 ^ k \<Longrightarrow> \<forall>c\<in>set (fractionDigits k n). isDigit c"
proof (induction k arbitrary: n)
  case 0
  then show ?case by simp
next
  case (Suc k)
  have d: "n div 10 ^ k < 10" using Suc.prems by (simp add: less_mult_imp_div_less mult.commute)
  have m: "n mod 10 ^ k < 10 ^ k" by simp
  show ?case using Suc.IH [OF m] d by (simp add: digitChar_digit)
qed

lemma String_of_double_chars: "\<forall>c\<in>set (String_of_double v). isNumberChar c"
proof -
  have m: "nat \<bar>round (v * 1000)\<bar> mod 1000 < 10 ^ 3" by simp
  show ?thesis
    using natDigits_digits [of "nat \<bar>round (v * 1000)\<bar> div 1000"] fractionDigits_digits [OF m]
    by (auto simp add: String_of_double_def Let_def isNumberChar_def)
qed

lemma isNumberChar_not_break: "isNumberChar c \<Longrightarrow> \<not> isBreakCharacter c"
  by (auto simp add: isNumberChar_def isBreakCharacter_def isDigit_def)

lemma isNumberChar_not_suffix:
  "isNumberChar c \<Longrightarrow> c \<notin> set ''%rcRCM''"
  by (auto simp add: isNumberChar_def isDigit_def)

lemma splitTokens_no_break:
  "\<forall>c\<in>set a. \<not> isBreakCharacter c \<Longrightarrow> splitTokens a = [a]"
  by (induction a) simp_all

lemma splitTokens_space:
  "\<forall>c\<in>set a. \<not> isBreakCharacter c \<Longrightarrow>
     splitTokens (a @ CHR '' '' # rest) = a # splitTokens rest"
  by (induction a) (simp_all add: isBreakCharacter_def)

lemma addPosDescription_append: "addPosDescription s m v = s @ addPosDescription [] m v"
  by (simp add: addPosDescription_def Let_def)

lemma addSizeDescription_append: "addSizeDescription s m v = s @ addSizeDescription [] m v"
  by (simp add: addSizeDescription_def)

lemma addPosDescription_no_break: "\<forall>c\<in>set (addPosDescription [] m v). \<not> isBreakCharacter c"
  using String_of_double_chars isNumberChar_not_break
  by (auto simp add: addPosDescription_def Let_def isBreakCharacter_def)

lemma addSizeDescription_no_break: "\<forall>c\<in>set (addSizeDescription [] m v). \<not> isBreakCharacter c"
  using String_of_double_chars isNumberChar_not_break
  by (auto simp add: addSizeDescription_def isBreakCharacter_def)

lemma toString_tokens:
  "toString p =
     addPosDescription [] (xMode p) (pr_x p) @ CHR '' '' #
     addPosDescription [] (yMode p) (pr_y p) @ CHR '' '' #
     addSizeDescription [] (wMode p) (pr_w p) @ CHR '' '' #
     addSizeDescription [] (hMode p) (pr_h p)"
  by (simp add: toString_def addPosDescription_append [of "_ # _"]
        addPosDescription_append [of "_ @ _"]
        addSizeDescription_append [of "_ # _"] addSizeDescription_append [of "_ @ _"])

lemma addTokens_toString:
  "addTokens (toString p) =
     [addPosDescription [] (xMode p) (pr_x p), addPosDescription [] (yMode p) (pr_y p),
      addSizeDescription [] (wMode p) (pr_w p), addSizeDescription [] (hMode p) (pr_h p)]"
  by (simp add: addTokens_def toString_tokens splitTokens_space splitTokens_no_break
        addPosDescription_no_break addSizeDescription_no_break)

text \<open>
  C10. The text form of the owned rectangle always splits into exactly four tokens, the
  descriptions of x, y, width and height. \<open>RelativePositionedRectangle::toString\<close>
  returns the first two, the x and y descriptions, separated by one space; the width and
  height tokens are dropped, so rectangles that differ only in raw width, raw height or
  size modes have the same string.
\<close>

theorem RelativePositionedRectangle_toString_tokens:
  "addTokens (toString (rect r)) =
     [addPosDescription [] (xMode (rect r)) (pr_x (rect r)),
      addPosDescription [] (yMode (rect r)) (pr_y (rect r)),
      addSizeDescription [] (wMode (rect r)) (pr_w (rect r)),
      addSizeDescription [] (hMode (rect r)) (pr_h (rect r))]
   \<and> RelativePositionedRectangle_toString r =
       Some (addPosDescription [] (xMode (rect r)) (pr_x (rect r)) @ '' '' @
             addPosDescription [] (yMode (rect r)) (pr_y (rect r)))
   \<and> RelativePositionedRectangle_toString
        (r \<lparr> rect := (rect r) \<lparr> pr_w := w', pr_h := h', wMode := wm', hMode := hm' \<rparr> \<rparr>)
       = RelativePositionedRectangle_toString r"
  by (simp add: RelativePositionedRectangle_toString_def addTokens_toString StringArray_at_def)

section \<open>Reading back the text of a number\<close>

lemma readDigits_stop:
  "rest = [] \<or> \<not> isDigit (hd rest) \<Longrightarrow> readDigits a rest = (a, rest)"
  by (cases rest) auto

lemma readFraction_stop:
  "rest = [] \<or> \<not> isDigit (hd rest) \<Longrightarrow> readFraction rest = 0"
  by (cases rest) auto

lemma readDigits_natDigits:
  "readDigits a (natDigits n @ rest) = readDigits (a * 10 ^ length (natDigits n) + n) rest"
proof (induction n arbitrary: a rest rule: natDigits.induct)
  case (1 n)
  show ?case
  proof (cases "n < 10")
    case True
    then show ?thesis
      by (simp add: natDigits.simps [of n] digitChar_digit digitValue_digitChar)
  next
    case False
    have d: "n mod 10 < 10" by simp
    have "readDigits a (natDigits n @ rest)
            = readDigits a (natDigits (n div 10) @ (digitChar (n mod 10) # rest))"
      using False by (simp add: natDigits.simps [of n])
    also have "\<dots> = readDigits (a * 10 ^ length (natDigits (n div 10)) + n div 10)
                        (digitChar (n mod 10) # rest)"
      using False by (rule 1)
    also have "\<dots> = readDigits ((a * 10 ^ length (natDigits (n div 10)) + n div 10) * 10
                          + n mod 10) rest"
      using d by (simp add: digitChar_digit digitValue_digitChar)
    also have "(a * 10 ^ length (natDigits (n div 10)) + n div 10) * 10 + n mod 10
                 = a * 10 ^ length (natDigits n) + n"
      using False by (simp add: natDigits.simps [of n] algebra_simps)
    finally show ?thesis .
  qed
qed

lemma readFraction_fractionDigits:
  assumes "n < 10 ^ k" and "rest = [] \<or> \<not> isDigit (hd rest)"
  shows "readFraction (fractionDigits k n @ rest) = real n / 10 ^ k"
  using assms(1)
proof (induction k arbitrary: n)
  case 0
  then show ?case using assms(2) by (simp add: readFraction_stop)
next
  case (Suc k)
  show ?case
  proof (cases "n = 0")
    case True
    then show ?thesis using assms(2) by (simp add: readFraction_stop)
  next
    case False
    have d: "n div 10 ^ k < 10"
      using Suc.prems by (simp add: less_mult_imp_div_less mult.commute)
    have m: "n mod 10 ^ k < 10 ^ k" by simp
    have "real (n div 10 ^ k * 10 ^ k + n mod 10 ^ k) = real n"
      by (simp only: div_mult_mod_eq)
    then have n: "real n = real (n div 10 ^ k) * 10 ^ k + real (n mod 10 ^ k)"
      by (simp only: of_nat_add of_nat_mult of_nat_power of_nat_numeral)
    have "readFraction (fractionDigits (Suc k) n @ rest)
            = (real (n div 10 ^ k) + real (n mod 10 ^ k) / 10 ^ k) / 10"
      using False d by (simp add: digitChar_digit digitValue_digitChar Suc.IH [OF m])
    also have "\<dots> = real n / 10 ^ Suc k"
      by (simp add: n field_simps)
    finally show ?thesis .
  qed
qed

lemma natDigits_Cons: "\<exists>c cs. natDigits n = c # cs \<and> isDigit c"
  using natDigits_digits [of n] natDigits_not_Nil [of n] by (cases "natDigits n") auto

lemma isDigit_not_special:
  "isDigit c \<Longrightarrow> \<not> isWhitespace c \<and> c \<noteq> CHR ''-'' \<and> c \<noteq> CHR ''+'' \<and> c \<noteq> CHR ''.''"
  by (auto simp add: isDigit_def isWhitespace_def)

text \<open>Reading the magnitude: the digits before the point, the point and the fraction.\<close>

lemma read_magnitude:
  assumes stop: "rest = [] \<or> (\<not> isDigit (hd rest) \<and> hd rest \<noteq> CHR ''.'')"
  shows "(case readDigits 0 (natDigits (n div 1000)
                 @ (if n mod 1000 = 0 then [] else CHR ''.'' # fractionDigits 3 (n mod 1000))
                 @ rest) of
            (ip, t2) \<Rightarrow>
              real ip + (case t2 of [] \<Rightarrow> 0
                         | c # cs \<Rightarrow> if c = CHR ''.'' then readFraction cs else 0))
         = real n / 1000"
proof -
  have s: "rest = [] \<or> \<not> isDigit (hd rest)" using stop by blast
  have "real (n div 1000 * 1000 + n mod 1000) = real n"
    by (simp only: div_mult_mod_eq)
  then have n: "real n = real (n div 1000) * 1000 + real (n mod 1000)"
    by (simp only: of_nat_add of_nat_mult of_nat_numeral)
  show ?thesis
  proof (cases "n mod 1000 = 0")
    case True
    have "(case rest of [] \<Rightarrow> 0 | c # cs \<Rightarrow> if c = CHR ''.'' then readFraction cs else (0::real)) = 0"
      using stop by (cases rest) auto
    then show ?thesis
      using True n by (simp add: readDigits_natDigits readDigits_stop [OF s])
  next
    case False
    have m: "n mod 1000 < 10 ^ 3" by simp
    have p: "\<not> isDigit CHR ''.''" by (simp add: isDigit_def)
    show ?thesis
      using False n p
      by (simp add: readDigits_natDigits readFraction_fractionDigits [OF m s])
  qed
qed

lemma readDoubleValue_plain:
  assumes "\<not> isWhitespace c \<and> c \<noteq> CHR ''-'' \<and> c \<noteq> CHR ''+'' \<and> c \<noteq> CHR ''.''"
  shows "readDoubleValue (c # cs) =
           (case readDigits 0 (c # cs) of
              (ip, t2) \<Rightarrow>
                real ip + (case t2 of [] \<Rightarrow> 0
                           | c # cs \<Rightarrow> if c = CHR ''.'' then readFraction cs else 0))"
  using assms by (simp add: readDoubleValue_def split_beta Let_def del: readDigits.simps)

lemma readDoubleValue_minus:
  "readDoubleValue (CHR ''-'' # t) =
     - (case readDigits 0 t of
          (ip, t2) \<Rightarrow>
            real ip + (case t2 of [] \<Rightarrow> 0
                       | c # cs \<Rightarrow> if c = CHR ''.'' then readFraction cs else 0))"
  by (simp add: readDoubleValue_def isWhitespace_def split_beta Let_def del: readDigits.simps)

lemma readDoubleValue_String_of_double:
  assumes stop: "rest = [] \<or> (\<not> isDigit (hd rest) \<and> hd rest \<noteq> CHR ''.'')"
  shows "readDoubleValue (String_of_double (real_of_int k / 1000) @ rest) = real_of_int k / 1000"
proof -
  define n where "n = nat \<bar>k\<bar>"
  define body where "body = natDigits (n div 1000)
                 @ (if n mod 1000 = 0 then [] else CHR ''.'' # fractionDigits 3 (n mod 1000))
                 @ rest"
  obtain c cs where c: "natDigits (n div 1000) = c # cs" "isDigit c"
    using natDigits_Cons by blast
  have b: "body = c # (cs @ (if n mod 1000 = 0 then [] else CHR ''.'' # fractionDigits 3 (n mod 1000))
                 @ rest)"
    by (simp add: body_def c)
  note sp = isDigit_not_special [OF c(2)]
  have mag: "(case readDigits 0 body of
               (ip, t2) \<Rightarrow> real ip + (case t2 of [] \<Rightarrow> 0
                         | c # cs \<Rightarrow> if c = CHR ''.'' then readFraction cs else 0))
             = real n / 1000"
    unfolding body_def by (rule read_magnitude [OF stop])
  have r: "round (real_of_int k / 1000 * 1000) = k" by simp
  have str: "String_of_double (real_of_int k / 1000) @ rest
               = (if k < 0 then ''-'' else []) @ body"
    unfolding String_of_double_def r Let_def body_def n_def by simp
  show ?thesis
  proof (cases "k < 0")
    case True
    have "readDoubleValue (CHR ''-'' # body) = - (real n / 1000)"
      by (simp only: readDoubleValue_minus mag)
    then show ?thesis using True by (simp add: str n_def)
  next
    case False
    have "readDoubleValue body =
            (case readDigits 0 body of
               (ip, t2) \<Rightarrow> real ip + (case t2 of [] \<Rightarrow> 0
                         | c # cs \<Rightarrow> if c = CHR ''.'' then readFraction cs else 0))"
      unfolding b by (rule readDoubleValue_plain [OF sp])
    then have "readDoubleValue body = real n / 1000"
      unfolding mag .
    then show ?thesis using False by (simp add: str n_def)
  qed
qed

lemma readDoubleValue_String_of_double_100:
  assumes stop: "rest = [] \<or> (\<not> isDigit (hd rest) \<and> hd rest \<noteq> CHR ''.'')"
  shows "readDoubleValue (String_of_double (real_of_int k / 100) @ rest) = real_of_int k / 100"
  using readDoubleValue_String_of_double [OF stop, of "10 * k"] by simp

lemma startsWithNumber_digit: "isDigit c \<Longrightarrow> startsWithNumber (c # cs)"
  using isDigit_not_special [of c] by (simp add: startsWithNumber_def)

lemma startsWithNumber_minus_digit: "isDigit c \<Longrightarrow> startsWithNumber (CHR ''-'' # c # cs)"
  by (simp add: startsWithNumber_def isWhitespace_def)

lemma startsWithNumber_String_of_double: "startsWithNumber (String_of_double v @ rest)"
proof -
  obtain c cs where c: "natDigits (nat \<bar>round (v * 1000)\<bar> div 1000) = c # cs" "isDigit c"
    using natDigits_Cons by blast
  show ?thesis
  proof (cases "round (v * 1000) < 0")
    case True
    then show ?thesis
      unfolding String_of_double_def Let_def c
      by (simp add: startsWithNumber_minus_digit [OF c(2)])
  next
    case False
    then show ?thesis
      unfolding String_of_double_def Let_def c
      by (simp add: startsWithNumber_digit [OF c(2)])
  qed
qed

section \<open>Round trip through the text form\<close>

lemma removeCharacters_token:
  assumes "\<forall>c\<in>set num. c \<notin> set cs" and "set suf \<subseteq> set cs"
  shows "removeCharacters (num @ suf) cs = num"
proof -
  have "filter (\<lambda>c. c \<notin> set cs) num = num"
    using assms(1) by (simp add: filter_id_conv)
  moreover have "filter (\<lambda>c. c \<notin> set cs) suf = []"
    using assms(2) by (auto simp add: filter_empty_conv)
  ultimately show ?thesis
    by (simp add: removeCharacters_def)
qed

lemma upToFirstOccurrenceOf_token:
  "c \<notin> set xs \<Longrightarrow> upToFirstOccurrenceOf (xs @ c # rest) c = xs"
  unfolding upToFirstOccurrenceOf_def by (induction xs) auto

lemma decodePosString_token:
  assumes num: "\<forall>c\<in>set num. isNumberChar c" and suf: "set suf \<subseteq> set ''%rcRC''"
  shows "decodePosString (num @ suf) =
     (let mode = (if CHR ''r'' \<in> set suf then anchorAtRightOrBottom
                  else if CHR ''c'' \<in> set suf then anchorAtCentre
                  else anchorAtLeftOrTop)
      in if CHR ''%'' \<in> set suf
           then map_option (\<lambda>v. (mode OR proportionOfParentSize, v / 100)) (getDoubleValue num)
         else map_option
                (\<lambda>v. ((if CHR ''R'' \<in> set suf then mode OR absoluteFromParentBottomRight
                        else if CHR ''C'' \<in> set suf then mode OR absoluteFromParentCentre
                        else mode OR absoluteFromParentTopLeft), v))
                (getDoubleValue num))"
proof -
  have nc: "d \<notin> set num" if "d \<in> set ''%rcRC''" for d
    using num isNumberChar_not_suffix [of d] that by auto
  have cc: "containsChar (num @ suf) d \<longleftrightarrow> d \<in> set suf" if "d \<in> set ''%rcRC''" for d
    using nc [OF that] by (simp add: containsChar_def)
  have rm1: "removeCharacters (num @ suf) ''%rcRC'' = num"
    using nc suf by (intro removeCharacters_token) auto
  have rm2: "removeCharacters (num @ suf) ''rcRC'' = num" if "CHR ''%'' \<notin> set suf"
    using nc suf that by (intro removeCharacters_token) auto
  show ?thesis
    unfolding decodePosString_def
    by (cases "getDoubleValue num") (simp_all add: cc rm1 rm2)
qed

lemma getDoubleValue_text:
  "getDoubleValue (String_of_double (real_of_int k / 1000)) = Some (real_of_int k / 1000)"
  "getDoubleValue (String_of_double (real_of_int k / 100)) = Some (real_of_int k / 100)"
  "getDoubleValue (String_of_double (real_of_int k / 100) @ ''M'') = Some (real_of_int k / 100)"
  using readDoubleValue_String_of_double [of "[]" k]
    readDoubleValue_String_of_double_100 [of "[]" k]
    readDoubleValue_String_of_double_100 [of "''M''" k]
    startsWithNumber_String_of_double [of _ "[]"]
  by (simp_all add: isDigit_def getDoubleValue_def startsWithNumber_String_of_double)

lemmas decodePosString_text =
  decodePosString_token [OF String_of_double_chars]
  decodePosString_token [OF String_of_double_chars, of "[]", simplified]

lemma decodePosString_addPosDescription:
  assumes "isValidPositionMode m"
  shows "decodePosString (addPosDescription [] m v) =
           Some (m, if m AND proportionOfParentSize \<noteq> 0
                      then real_of_int (roundToInt (v * 100000)) / 100000
                    else real_of_int (roundToInt (v * 100)) / 100)"
  using assms unfolding isValidPositionMode_def
  by (elim imageE SigmaE insertE emptyE)
     (simp_all add: addPosDescription_def decodePosString_text getDoubleValue_text mode_defs)

lemma decodeSizeString_addSizeDescription:
  assumes "isValidSizeMode m"
  shows "decodeSizeString (addSizeDescription [] m v) =
           Some (m, if m = proportionalSize
                      then real_of_int (roundToInt (v * 100000)) / 100000
                    else real_of_int (roundToInt (v * 100)) / 100)"
proof -
  have np: "CHR ''%'' \<notin> set (String_of_double q)" and nm: "CHR ''M'' \<notin> set (String_of_double q)"
    for q
    using String_of_double_chars [of q] isNumberChar_not_suffix by auto
  have up: "upToFirstOccurrenceOf (String_of_double q @ ''%'') CHR ''%'' = String_of_double q"
    for q
    using np [of q] by (rule upToFirstOccurrenceOf_token)
  show ?thesis
    using assms unfolding isValidSizeMode_def
    by (elim insertE emptyE)
       (simp_all add: addSizeDescription_def decodeSizeString_def containsChar_def np nm up
          getDoubleValue_text mode_defs)
qed

lemma roundToInt_error:
  assumes "0 < c"
  shows "\<bar>real_of_int (roundToInt (v * c)) / c - v\<bar> \<le> 1 / (2 * c)"
proof -
  have "\<bar>real_of_int (round (v * c)) - v * c\<bar> \<le> 1 / 2"
    by (rule of_int_round_abs_le)
  moreover have "real_of_int (round (v * c)) / c - v = (real_of_int (round (v * c)) - v * c) / c"
    using assms by (simp add: field_simps)
  ultimately show ?thesis
    using assms by (simp add: roundToInt_def abs_divide field_simps)
qed

lemma PositionedRectangle_of_String_toString:
  assumes "isValidPositionMode (xMode p)" and "isValidPositionMode (yMode p)"
    and "isValidSizeMode (wMode p)" and "isValidSizeMode (hMode p)"
  shows "PositionedRectangle_of_String (toString p) =
           Some \<lparr> pr_x = (if xMode p AND proportionOfParentSize \<noteq> 0
                            then real_of_int (roundToInt (pr_x p * 100000)) / 100000
                          else real_of_int (roundToInt (pr_x p * 100)) / 100),
                  pr_y = (if yMode p AND proportionOfParentSize \<noteq> 0
                            then real_of_int (roundToInt (pr_y p * 100000)) / 100000
                          else real_of_int (roundToInt (pr_y p * 100)) / 100),
                  pr_w = (if wMode p = proportionalSize
                            then real_of_int (roundToInt (pr_w p * 100000)) / 100000
                          else real_of_int (roundToInt (pr_w p * 100)) / 100),
                  pr_h = (if hMode p = proportionalSize
                            then real_of_int (roundToInt (pr_h p * 100000)) / 100000
                          else real_of_int (roundToInt (pr_h p * 100)) / 100),
                  xMode = xMode p, yMode = yMode p, wMode = wMode p, hMode = hMode p \<rparr>"
  using assms
  by (simp add: PositionedRectangle_of_String_def addTokens_toString StringArray_at_def
        decodePosString_addPosDescription decodeSizeString_addSizeDescription)

text \<open>
  Every rectangle that the class can build has valid mode bytes: the default
  constructor and the string constructor produce them, and \<open>setModes\<close> keeps them
  when it is called with enumerators.
\<close>

lemma PositionedRectangle_default_valid:
  "isValidPositionMode (xMode PositionedRectangle_default)"
  "isValidPositionMode (yMode PositionedRectangle_default)"
  "isValidSizeMode (wMode PositionedRectangle_default)"
  "isValidSizeMode (hMode PositionedRectangle_default)"
  by (simp_all add: PositionedRectangle_default_def isValidPositionMode_def isValidSizeMode_def)

lemma decodePosString_valid: "decodePosString s = Some (m, v) \<Longrightarrow> isValidPositionMode m"
  by (auto simp add: decodePosString_def isValidPositionMode_def Let_def bind_eq_Some_conv
        split: if_splits)

lemma decodeSizeString_valid: "decodeSizeString s = Some (m, v) \<Longrightarrow> isValidSizeMode m"
  by (auto simp add: decodeSizeString_def isValidSizeMode_def bind_eq_Some_conv
        split: if_splits)

lemma PositionedRectangle_of_String_valid:
  assumes "PositionedRectangle_of_String s = Some q"
  shows "isValidPositionMode (xMode q)" and "isValidPositionMode (yMode q)"
    and "isValidSizeMode (wMode q)" and "isValidSizeMode (hMode q)"
  using assms decodePosString_valid decodeSizeString_valid
  by (auto simp add: PositionedRectangle_of_String_def Let_def bind_eq_Some_conv
        split: prod.splits)

lemma setModes_valid:
  assumes "isValidPositionMode (xAnchor OR xModeArg)" and "isValidPositionMode (yAnchor OR yModeArg)"
    and "isValidSizeMode widthMode" and "isValidSizeMode heightMode"
  shows "isValidPositionMode
           (xMode (setModes p xAnchor xModeArg yAnchor yModeArg widthMode heightMode R))"
    and "isValidPositionMode
           (yMode (setModes p xAnchor xModeArg yAnchor yModeArg widthMode heightMode R))"
    and "isValidSizeMode
           (wMode (setModes p xAnchor xModeArg yAnchor yModeArg widthMode heightMode R))"
    and "isValidSizeMode
           (hMode (setModes p xAnchor xModeArg yAnchor yModeArg widthMode heightMode R))"
  using assms by (simp_all add: setModes_modes)

text \<open>
  C4. For a rectangle whose mode bytes are valid, parsing the string written by
  \<open>toString\<close> succeeds and gives back the same four mode bytes, and each raw value up
  to the rounding of the text encoding: a proportional value, read as a percentage,
  differs by at most 0.0005 (3 decimal places), an absolute value by at most 0.005 (2
  decimal places).
\<close>

theorem toString_roundtrip:
  assumes "isValidPositionMode (xMode p)" and "isValidPositionMode (yMode p)"
    and "isValidSizeMode (wMode p)" and "isValidSizeMode (hMode p)"
  shows "case PositionedRectangle_of_String (toString p) of
           None \<Rightarrow> False
         | Some q \<Rightarrow>
             xMode q = xMode p \<and> yMode q = yMode p \<and> wMode q = wMode p \<and> hMode q = hMode p
           \<and> (if xMode p AND proportionOfParentSize \<noteq> 0
                then \<bar>100 * pr_x q - 100 * pr_x p\<bar> \<le> 5 / 10000
              else \<bar>pr_x q - pr_x p\<bar> \<le> 5 / 1000)
           \<and> (if yMode p AND proportionOfParentSize \<noteq> 0
                then \<bar>100 * pr_y q - 100 * pr_y p\<bar> \<le> 5 / 10000
              else \<bar>pr_y q - pr_y p\<bar> \<le> 5 / 1000)
           \<and> (if wMode p = proportionalSize
                then \<bar>100 * pr_w q - 100 * pr_w p\<bar> \<le> 5 / 10000
              else \<bar>pr_w q - pr_w p\<bar> \<le> 5 / 1000)
           \<and> (if hMode p = proportionalSize
                then \<bar>100 * pr_h q - 100 * pr_h p\<bar> \<le> 5 / 10000
              else \<bar>pr_h q - pr_h p\<bar> \<le> 5 / 1000)"
proof -
  have a: "\<bar>real_of_int (roundToInt (v * 100)) / 100 - v\<bar> \<le> 5 / 1000" for v
    using roundToInt_error [of 100 v] by simp
  have b: "\<bar>100 * (real_of_int (roundToInt (v * 100000)) / 100000) - 100 * v\<bar> \<le> 5 / 10000"
    for v
    using roundToInt_error [of 100000 v] by (simp add: abs_if split: if_splits)
  show ?thesis
    unfolding PositionedRectangle_of_String_toString [OF assms]
    using a b by simp
qed

lemma fractionDigits_3:
  "fractionDigits 3 n =
     (if n = 0 then []
      else digitChar (n div 100) #
           (if n mod 100 = 0 then []
            else digitChar (n mod 100 div 10) #
                 (if n mod 10 = 0 then [] else [digitChar (n mod 10)])))"
  by (simp add: numeral_3_eq_3 mod_mod_cancel)

theorem toString_roundtrip_witness:
  "toString
     \<lparr> pr_x = - 12501 / 250, pr_y = 4050004 / 10000000, pr_w = 49 / 4, pr_h = 7,
       xMode = anchorAtRightOrBottom OR absoluteFromParentBottomRight,
       yMode = anchorAtCentre OR proportionOfParentSize,
       wMode = parentSizeMinusAbsolute, hMode = absoluteSize \<rparr>
     = ''-50Rr 40.5%c 12.25M 7''
   \<and> PositionedRectangle_of_String ''-50Rr 40.5%c 12.25M 7''
     = Some \<lparr> pr_x = - 50, pr_y = 405 / 1000, pr_w = 49 / 4, pr_h = 7,
         xMode = anchorAtRightOrBottom OR absoluteFromParentBottomRight,
         yMode = anchorAtCentre OR proportionOfParentSize,
         wMode = parentSizeMinusAbsolute, hMode = absoluteSize \<rparr>
   \<and> \<bar>- 50 - (- 12501 / 250 :: real)\<bar> \<le> 5 / 1000
   \<and> \<bar>100 * (405 / 1000) - 100 * (4050004 / 10000000 :: real)\<bar> \<le> 5 / 10000"
proof -
  have t: "toString
     \<lparr> pr_x = - 12501 / 250, pr_y = 4050004 / 10000000, pr_w = 49 / 4, pr_h = 7,
       xMode = anchorAtRightOrBottom OR absoluteFromParentBottomRight,
       yMode = anchorAtCentre OR proportionOfParentSize,
       wMode = parentSizeMinusAbsolute, hMode = absoluteSize \<rparr>
     = ''-50Rr 40.5%c 12.25M 7''"
    by (simp add: toString_def addPosDescription_def addSizeDescription_def mode_defs
          roundToInt_def round_def String_of_double_def natDigits.simps fractionDigits_3
          digitChar_def char_of_def bit_Suc_0_iff)
  have v: "isValidPositionMode (anchorAtRightOrBottom OR absoluteFromParentBottomRight)"
    "isValidPositionMode (anchorAtCentre OR proportionOfParentSize)"
    "isValidSizeMode parentSizeMinusAbsolute" "isValidSizeMode absoluteSize"
    by (simp_all add: isValidPositionMode_def isValidSizeMode_def)
  have p: "PositionedRectangle_of_String ''-50Rr 40.5%c 12.25M 7''
     = Some \<lparr> pr_x = - 50, pr_y = 405 / 1000, pr_w = 49 / 4, pr_h = 7,
         xMode = anchorAtRightOrBottom OR absoluteFromParentBottomRight,
         yMode = anchorAtCentre OR proportionOfParentSize,
         wMode = parentSizeMinusAbsolute, hMode = absoluteSize \<rparr>"
    by (simp add: text_defs)
  have m: "(anchorAtRightOrBottom OR absoluteFromParentBottomRight) AND proportionOfParentSize = 0"
    "(anchorAtCentre OR proportionOfParentSize) AND proportionOfParentSize \<noteq> 0"
    by (simp_all add: mode_defs)
  show ?thesis
    using toString_roundtrip
      [of "\<lparr> pr_x = - 12501 / 250, pr_y = 4050004 / 10000000, pr_w = 49 / 4, pr_h = 7,
             xMode = anchorAtRightOrBottom OR absoluteFromParentBottomRight,
             yMode = anchorAtCentre OR proportionOfParentSize,
             wMode = parentSizeMinusAbsolute, hMode = absoluteSize \<rparr>"]
    unfolding t by (simp add: v p m)
qed

end
